theory Spec2Isabelle
  imports Complex_Main
begin

section \<open>Python strings\<close>

text \<open>
  A Python \<open>str\<close> is a sequence of code points. The model covers the code points
  below 256 (Latin-1), one HOL \<open>char\<close> each, so \<open>length\<close> is Python's \<open>len\<close>.
  The character classes below are those of \<open>str.isspace\<close>, \<open>str.isupper\<close>,
  \<open>str.isalnum\<close> and \<open>str.lower\<close> on that range; \<open>str.lower\<close> maps the
  range into itself, one character to one character.
\<close>

definition code :: "char \<Rightarrow> nat" where
  "code c = of_char c"

definition py_isspace :: "char \<Rightarrow> bool" where
  "py_isspace c =
     (let n = code c
      in (9 \<le> n \<and> n \<le> 13) \<or> (28 \<le> n \<and> n \<le> 32) \<or> n = 133 \<or> n = 160)"

definition py_isupper :: "char \<Rightarrow> bool" where
  "py_isupper c =
     (let n = code c
      in (65 \<le> n \<and> n \<le> 90) \<or> (192 \<le> n \<and> n \<le> 222 \<and> n \<noteq> 215))"

definition py_isalnum :: "char \<Rightarrow> bool" where
  "py_isalnum c =
     (let n = code c
      in (48 \<le> n \<and> n \<le> 57) \<or> (65 \<le> n \<and> n \<le> 90) \<or> (97 \<le> n \<and> n \<le> 122)
         \<or> n = 170 \<or> n = 178 \<or> n = 179 \<or> n = 181 \<or> n = 185 \<or> n = 186
         \<or> (188 \<le> n \<and> n \<le> 190)
         \<or> (192 \<le> n \<and> n \<le> 255 \<and> n \<noteq> 215 \<and> n \<noteq> 247))"

definition lower_char :: "char \<Rightarrow> char" where
  "lower_char c = (if py_isupper c then char_of (code c + 32) else c)"

definition py_lower :: "string \<Rightarrow> string" where
  "py_lower s = map lower_char s"

definition py_strip :: "string \<Rightarrow> string" where
  "py_strip s = rev (dropWhile py_isspace (rev (dropWhile py_isspace s)))"

text \<open>\<open>s.split()\<close>: the maximal runs of non-whitespace, in order. The first
  argument is the run being read, reversed.\<close>

fun split_acc :: "string \<Rightarrow> string \<Rightarrow> string list" where
  "split_acc w [] = (if w = [] then [] else [rev w])"
| "split_acc w (c # cs) =
     (if py_isspace c
      then (if w = [] then split_acc [] cs else rev w # split_acc [] cs)
      else split_acc (c # w) cs)"

definition py_split :: "string \<Rightarrow> string list" where
  "py_split s = split_acc [] s"

text \<open>\<open>s.count(c)\<close> for a one-character \<open>c\<close>.\<close>

definition py_count :: "string \<Rightarrow> char \<Rightarrow> nat" where
  "py_count s c = length (filter (\<lambda>x. x = c) s)"

text \<open>\<open>d.get(k, default)\<close> on a dictionary.\<close>

definition dict_get :: "('k \<rightharpoonup> 'v) \<Rightarrow> 'k \<Rightarrow> 'v \<Rightarrow> 'v" where
  "dict_get m k dflt = (case m k of None \<Rightarrow> dflt | Some v \<Rightarrow> v)"

text \<open>\<open>xs[:d]\<close>: a negative bound counts from the end.\<close>

definition slice_to :: "'a list \<Rightarrow> int \<Rightarrow> 'a list" where
  "slice_to xs d = (if d < 0 then take (nat (int (length xs) + d)) xs else take (nat d) xs)"

section \<open>Exceptions\<close>

text \<open>
  The exceptions that the clients can meet, each with its message (\<open>str(e)\<close>).
  \<open>Timeout\<close>, \<open>ConnectionError\<close> and \<open>JSONDecodeError\<close> are the classes of
  the HTTP library; the first two are subclasses of its \<open>RequestException\<close>, and a
  connect timeout, which is both a \<open>ConnectionError\<close> and a \<open>Timeout\<close>, is a
  \<open>Timeout\<close> here, the clause that every handler tries first. \<open>RequestException\<close>
  stands for the other transport errors, \<open>OtherException\<close> for any other subclass
  of \<open>Exception\<close>, and \<open>BaseExc\<close> for what is not a subclass of \<open>Exception\<close>
  (an interrupt, an exit request).
\<close>

datatype exn =
    Timeout string
  | ConnectionError string
  | RequestException string
  | JSONDecodeError string
  | AttributeError string
  | OtherException string
  | BaseExc string

section \<open>Embedding generator\<close>

text \<open>
  \<open>PineconeStorageTool._create_simple_embedding\<close>. Python floats are modelled as
  real numbers: the arithmetic is exact, rounding is outside the model.
\<close>

definition char_freq_step :: "(char \<rightharpoonup> nat) \<Rightarrow> char \<Rightarrow> (char \<rightharpoonup> nat)" where
  "char_freq_step m c =
     (if py_isalnum c \<or> py_isspace c then m(c \<mapsto> dict_get m c 0 + 1) else m)"

definition char_freq :: "string \<Rightarrow> (char \<rightharpoonup> nat)" where
  "char_freq txt = fold (\<lambda>c m. char_freq_step m c) txt Map.empty"

text \<open>The seven scalar features, of the text already lowercased and stripped.\<close>

definition scalar_features :: "string \<Rightarrow> real list" where
  "scalar_features txt =
     [ real (length txt),
       real (length (py_split txt)),
       real (py_count txt CHR ''.''),
       real (py_count txt CHR ''!''),
       real (py_count txt CHR ''?''),
       real (length (filter py_isupper txt)),
       real (py_count txt CHR '' '') ]"

definition total_chars :: "string \<Rightarrow> nat" where
  "total_chars txt = (if length txt > 0 then length txt else 1)"

definition letter_features :: "string \<Rightarrow> real list" where
  "letter_features txt =
     map (\<lambda>i. real (dict_get (char_freq txt) (char_of (code CHR ''a'' + i)) 0)
                 / real (total_chars txt)) [0..<26]"

definition digit_features :: "string \<Rightarrow> real list" where
  "digit_features txt =
     map (\<lambda>i. real (dict_get (char_freq txt) (char_of (code CHR ''0'' + i)) 0)
                 / real (total_chars txt)) [0..<10]"

text \<open>The loop \<open>while len(features) < dimension: features.append(0.0)\<close>.\<close>

function pad_features :: "real list \<Rightarrow> int \<Rightarrow> real list" where
  "pad_features fs d = (if int (length fs) < d then pad_features (fs @ [0]) d else fs)"
  by pat_completeness auto
termination
  by (relation "measure (\<lambda>(fs, d). nat (d - int (length fs)))") auto

declare pad_features.simps [simp del]

definition magnitude :: "real list \<Rightarrow> real" where
  "magnitude fs = sqrt (sum_list (map (\<lambda>x. x * x) fs))"

definition normalize_vector :: "real list \<Rightarrow> real list" where
  "normalize_vector fs =
     (if magnitude fs > 0 then map (\<lambda>x. x / magnitude fs) fs else fs)"

text \<open>The feature list before normalisation: the 43 features, padded, then cut.\<close>

definition base_features :: "string \<Rightarrow> real list" where
  "base_features txt = scalar_features txt @ letter_features txt @ digit_features txt"

definition raw_features :: "string \<Rightarrow> int \<Rightarrow> real list" where
  "raw_features text0 d =
     (let txt = py_strip (py_lower text0);
          features = base_features txt
      in slice_to (pad_features features d) d)"

text \<open>The body of the \<open>try\<close>: no statement of it raises on a \<open>str\<close>.\<close>

definition embedding_body :: "string \<Rightarrow> int \<Rightarrow> exn + real list" where
  "embedding_body text0 d = Inr (normalize_vector (raw_features text0 d))"

text \<open>The vector of the \<open>except\<close> clause, \<open>[0.1] * dimension\<close>.\<close>

definition default_vector :: "int \<Rightarrow> real list" where
  "default_vector d = replicate (nat d) (1 / 10)"

definition create_simple_embedding :: "string \<Rightarrow> int \<Rightarrow> real list" where
  "create_simple_embedding text0 d =
     (case embedding_body text0 d of
        Inr v \<Rightarrow> v
      | Inl e \<Rightarrow> default_vector d)"

section \<open>JSON values as Python sees them\<close>

text \<open>
  What \<open>response.json()\<close> returns: \<open>None\<close>, a \<open>bool\<close>, an \<open>int\<close>, a \<open>str\<close>,
  a \<open>list\<close> or a \<open>dict\<close> (its items in order, the keys distinct). Numbers with
  a fraction are not modelled.
\<close>

datatype json =
    JNull
  | JBool bool
  | JInt int
  | JStr string
  | JArr "json list"
  | JObj "(string \<times> json) list"

definition apostrophe :: string where
  "apostrophe = [CHR 0x27]"

definition digit_char :: "nat \<Rightarrow> char" where
  "digit_char n = char_of (code CHR ''0'' + n)"

function decimal :: "nat \<Rightarrow> string" where
  "decimal n = (if n < 10 then [digit_char n] else decimal (n div 10) @ [digit_char (n mod 10)])"
  by pat_completeness auto
termination
  by (relation "measure id") auto

declare decimal.simps [simp del]

text \<open>\<open>str(i)\<close> of an \<open>int\<close>.\<close>

definition str_int :: "int \<Rightarrow> string" where
  "str_int i = (if i < 0 then ''-'' @ decimal (nat (- i)) else decimal (nat i))"

definition py_isprintable :: "char \<Rightarrow> bool" where
  "py_isprintable c =
     (let n = code c in (32 \<le> n \<and> n \<le> 126) \<or> (161 \<le> n \<and> n \<noteq> 173))"

definition hex_digit :: "nat \<Rightarrow> char" where
  "hex_digit n = (if n < 10 then digit_char n else char_of (code CHR ''a'' + (n - 10)))"

text \<open>One character of \<open>repr(s)\<close>, inside the quotes \<open>q\<close>.\<close>

definition escape_char :: "char \<Rightarrow> char \<Rightarrow> string" where
  "escape_char q c =
     (if c = q \<or> c = CHR 0x5C then [CHR 0x5C, c]
      else if c = CHR 0x09 then [CHR 0x5C, CHR ''t'']
      else if c = CHR 0x0A then [CHR 0x5C, CHR ''n'']
      else if c = CHR 0x0D then [CHR 0x5C, CHR ''r'']
      else if \<not> py_isprintable c
        then [CHR 0x5C, CHR ''x'', hex_digit (code c div 16), hex_digit (code c mod 16)]
      else [c])"

definition repr_str :: "string \<Rightarrow> string" where
  "repr_str s =
     (let q = (if CHR 0x27 \<in> set s \<and> CHR 0x22 \<notin> set s then CHR 0x22 else CHR 0x27)
      in [q] @ concat (map (escape_char q) s) @ [q])"

text \<open>\<open>', '.join(xs)\<close>.\<close>

fun join_comma :: "string list \<Rightarrow> string" where
  "join_comma [] = []"
| "join_comma [x] = x"
| "join_comma (x # y # ys) = x @ '', '' @ join_comma (y # ys)"

fun py_repr :: "json \<Rightarrow> string" where
  "py_repr JNull = ''None''"
| "py_repr (JBool b) = (if b then ''True'' else ''False'')"
| "py_repr (JInt i) = str_int i"
| "py_repr (JStr s) = repr_str s"
| "py_repr (JArr xs) = ''['' @ join_comma (map py_repr xs) @ '']''"
| "py_repr (JObj kvs) =
     ''{'' @ join_comma (map (\<lambda>kv. repr_str (fst kv) @ '': '' @ py_repr (snd kv)) kvs) @ ''}''"

text \<open>\<open>str(v)\<close>, what an f-string prints.\<close>

definition py_str :: "json \<Rightarrow> string" where
  "py_str v = (case v of JStr s \<Rightarrow> s | _ \<Rightarrow> py_repr v)"

text \<open>The truth value of \<open>v\<close> in \<open>if v:\<close>.\<close>

definition truthy :: "json \<Rightarrow> bool" where
  "truthy v =
     (case v of
        JNull \<Rightarrow> False
      | JBool b \<Rightarrow> b
      | JInt i \<Rightarrow> i \<noteq> 0
      | JStr s \<Rightarrow> s \<noteq> []
      | JArr xs \<Rightarrow> xs \<noteq> []
      | JObj kvs \<Rightarrow> kvs \<noteq> [])"

definition type_name :: "json \<Rightarrow> string" where
  "type_name v =
     (case v of
        JNull \<Rightarrow> ''NoneType''
      | JBool _ \<Rightarrow> ''bool''
      | JInt _ \<Rightarrow> ''int''
      | JStr _ \<Rightarrow> ''str''
      | JArr _ \<Rightarrow> ''list''
      | JObj _ \<Rightarrow> ''dict'')"

text \<open>\<open>v.get(k, default)\<close>: only a \<open>dict\<close> has \<open>get\<close>.\<close>

definition json_get :: "json \<Rightarrow> string \<Rightarrow> json \<Rightarrow> exn + json" where
  "json_get v k dflt =
     (case v of
        JObj kvs \<Rightarrow> Inr (dict_get (map_of kvs) k dflt)
      | _ \<Rightarrow> Inl (AttributeError (apostrophe @ type_name v @ apostrophe
                  @ '' object has no attribute '' @ apostrophe @ ''get'' @ apostrophe)))"

section \<open>HTTP\<close>

text \<open>
  A response as the clients read it: \<open>status_code\<close>, the outcome of \<open>json()\<close>
  (the message of the \<open>JSONDecodeError\<close>, or the value), \<open>text\<close> and \<open>reason\<close>.
\<close>

record response =
  status_code :: int
  json_result :: "string + json"
  body_text :: string
  reason :: string

text \<open>
  \<open>requests.post\<close> is a parameter of each client: it maps the request to the
  response or to the exception raised. Each client returns its result together with
  the list of the requests it has posted. The environment is \<open>os.environ\<close>.
\<close>

type_synonym environ = "string \<rightharpoonup> string"

text \<open>\<open>os.getenv(k, '')\<close>.\<close>

definition getenv_or_empty :: "environ \<Rightarrow> string \<Rightarrow> string" where
  "getenv_or_empty env k = dict_get env k []"

text \<open>\<open>not os.getenv(k)\<close>: unset or empty.\<close>

definition env_missing :: "environ \<Rightarrow> string \<Rightarrow> bool" where
  "env_missing env k = (case env k of None \<Rightarrow> True | Some v \<Rightarrow> v = [])"

text \<open>
  The two pictographs of the result messages, U+2705 and U+274C, are beyond the
  modelled range: each is written as its three UTF-8 bytes.
\<close>

definition check_mark :: string where
  "check_mark = [CHR 0xE2, CHR 0x9C, CHR 0x85]"

definition cross_mark :: string where
  "cross_mark = [CHR 0xE2, CHR 0x9D, CHR 0x8C]"

section \<open>Social publisher\<close>

text \<open>\<open>FacebookPublishingTool._run\<close>.\<close>

record fb_request =
  fb_url :: string
  fb_data :: "(string \<times> string) list"
  fb_timeout :: nat
  fb_headers :: "(string \<times> string) list"

text \<open>\<open>error_data.get('error', {}).get('message', default)\<close>.\<close>

definition fb_error_message :: "json \<Rightarrow> json \<Rightarrow> exn + json" where
  "fb_error_message error_data dflt =
     (case json_get error_data ''error'' (JObj []) of
        Inl e \<Rightarrow> Inl e
      | Inr err \<Rightarrow> json_get err ''message'' dflt)"

text \<open>The status mapping, from \<open>if response.status_code == 200\<close> on. An inner
  \<open>try\<close> catches the \<open>JSONDecodeError\<close> only.\<close>

definition fb_respond :: "string \<Rightarrow> response \<Rightarrow> exn + string" where
  "fb_respond fb_page_id r =
     (if status_code r = 200 then
        (case json_result r of
           Inl _ \<Rightarrow> Inr (check_mark @ '' Successfully published to Facebook! (Post ID unavailable)'')
         | Inr response_data \<Rightarrow>
             (case json_get response_data ''id'' (JStr ''Unknown'') of
                Inl e \<Rightarrow> Inl e
              | Inr post_id \<Rightarrow>
                  Inr (check_mark @ '' Successfully published to Facebook! Post ID: ''
                       @ py_str post_id)))
      else if status_code r = 400 then
        (case json_result r of
           Inl _ \<Rightarrow> Inr (cross_mark @ '' Facebook API Error (400): Invalid request parameters'')
         | Inr error_data \<Rightarrow>
             (case fb_error_message error_data (JStr ''Bad request'') of
                Inl e \<Rightarrow> Inl e
              | Inr error_message \<Rightarrow>
                  Inr (cross_mark @ '' Facebook API Error (400): '' @ py_str error_message)))
      else if status_code r = 401 then
        Inr (cross_mark @ '' Facebook API Error (401): Invalid or expired access token. Please check your Facebook page access token.'')
      else if status_code r = 403 then
        Inr (cross_mark @ '' Facebook API Error (403): Insufficient permissions. Make sure your access token has ''
             @ apostrophe @ ''pages_manage_posts'' @ apostrophe @ '' permission.'')
      else if status_code r = 404 then
        Inr (cross_mark @ '' Facebook API Error (404): Page not found. Please verify the page ID: ''
             @ fb_page_id)
      else if status_code r = 429 then
        Inr (cross_mark @ '' Facebook API Error (429): Rate limit exceeded. Please wait before making another request.'')
      else
        (case json_result r of
           Inl _ \<Rightarrow>
             Inr (cross_mark @ '' Facebook API Error: HTTP '' @ str_int (status_code r)
                  @ '' - '' @ reason r)
         | Inr error_data \<Rightarrow>
             (case fb_error_message error_data (JStr (''HTTP '' @ str_int (status_code r))) of
                Inl e \<Rightarrow> Inl e
              | Inr error_message \<Rightarrow>
                  Inr (cross_mark @ '' Facebook API Error ('' @ str_int (status_code r) @ ''): ''
                       @ py_str error_message))))"

text \<open>The three checks before the request, in the source's order: the error
  message, or \<open>None\<close> when all pass.\<close>

definition fb_validate :: "string \<Rightarrow> string \<Rightarrow> string \<Rightarrow> string option" where
  "fb_validate access_token fb_page_id message =
     (if access_token = [] then
        Some ''Error: Facebook page access token is required. Please provide it as parameter or set FACEBOOK_PAGE_ACCESS_TKN environment variable.''
      else if fb_page_id = [] then
        Some ''Error: Facebook page ID is required. Please provide it as parameter or set FACEBOOK_PAGE_ID environment variable.''
      else if message = [] \<or> py_strip message = [] then
        Some ''Error: Message content cannot be empty.''
      else None)"

text \<open>\<open>page_access_token or os.getenv('FACEBOOK_PAGE_ACCESS_TKN', '')\<close>, and the
  same for the page id.\<close>

definition fb_access_token :: "environ \<Rightarrow> string \<Rightarrow> string" where
  "fb_access_token env page_access_token =
     (if page_access_token \<noteq> [] then page_access_token
      else getenv_or_empty env ''FACEBOOK_PAGE_ACCESS_TKN'')"

definition fb_page :: "environ \<Rightarrow> string \<Rightarrow> string" where
  "fb_page env page_id =
     (if page_id \<noteq> [] then page_id else getenv_or_empty env ''FACEBOOK_PAGE_ID'')"

definition fb_make_request :: "string \<Rightarrow> string \<Rightarrow> string \<Rightarrow> fb_request" where
  "fb_make_request access_token fb_page_id message =
     \<lparr> fb_url = ''https://graph.facebook.com/v18.0/'' @ fb_page_id @ ''/feed'',
       fb_data = [(''message'', py_strip message), (''access_token'', access_token)],
       fb_timeout = 30,
       fb_headers = [(''Content-Type'', ''application/x-www-form-urlencoded'')] \<rparr>"

text \<open>The body of the outer \<open>try\<close>.\<close>

definition fb_try ::
  "environ \<Rightarrow> (fb_request \<Rightarrow> exn + response) \<Rightarrow> string \<Rightarrow> string \<Rightarrow> string
     \<Rightarrow> (exn + string) \<times> fb_request list" where
  "fb_try env post message page_access_token page_id =
     (let access_token = fb_access_token env page_access_token;
          fb_page_id = fb_page env page_id
      in case fb_validate access_token fb_page_id message of
           Some err \<Rightarrow> (Inr err, [])
         | None \<Rightarrow>
             (let req = fb_make_request access_token fb_page_id message
              in case post req of
                   Inl e \<Rightarrow> (Inl e, [req])
                 | Inr r \<Rightarrow> (fb_respond fb_page_id r, [req])))"

text \<open>The \<open>except\<close> clauses, in order: \<open>Timeout\<close>, \<open>ConnectionError\<close>,
  \<open>RequestException\<close> (of which the library's \<open>JSONDecodeError\<close> is a subclass),
  \<open>Exception\<close>. Anything else goes on to the caller.\<close>

definition fb_except :: "exn \<Rightarrow> exn + string" where
  "fb_except e =
     (case e of
        Timeout _ \<Rightarrow>
          Inr (cross_mark @ '' Error: Request timed out. Facebook API may be temporarily unavailable.'')
      | ConnectionError _ \<Rightarrow>
          Inr (cross_mark @ '' Error: Failed to connect to Facebook API. Please check your internet connection.'')
      | RequestException m \<Rightarrow> Inr (cross_mark @ '' Network Error: '' @ m)
      | JSONDecodeError m \<Rightarrow> Inr (cross_mark @ '' Network Error: '' @ m)
      | AttributeError m \<Rightarrow> Inr (cross_mark @ '' Unexpected Error: '' @ m)
      | OtherException m \<Rightarrow> Inr (cross_mark @ '' Unexpected Error: '' @ m)
      | BaseExc m \<Rightarrow> Inl (BaseExc m))"

definition fb_run ::
  "environ \<Rightarrow> (fb_request \<Rightarrow> exn + response) \<Rightarrow> string \<Rightarrow> string \<Rightarrow> string
     \<Rightarrow> (exn + string) \<times> fb_request list" where
  "fb_run env post message page_access_token page_id =
     (case fb_try env post message page_access_token page_id of
        (Inl e, posted) \<Rightarrow> (fb_except e, posted)
      | (Inr s, posted) \<Rightarrow> (Inr s, posted))"

section \<open>CMS publisher\<close>

text \<open>\<open>SquarespacePublishingTool._run\<close>.\<close>

record sq_request =
  sq_url :: string
  sq_headers :: "(string \<times> string) list"
  sq_json :: "(string \<times> json) list"
  sq_timeout :: nat

definition sq_respond :: "string \<Rightarrow> response \<Rightarrow> exn + string" where
  "sq_respond title r =
     (if status_code r = 200 \<or> status_code r = 201 then
        (case json_result r of
           Inl _ \<Rightarrow>
             Inr (check_mark @ '' Blog post appears to have been created (HTTP ''
                  @ str_int (status_code r) @ ''), but response format was unexpected.'')
         | Inr response_data \<Rightarrow>
             (case json_get response_data ''id'' (JStr []) of
                Inl e \<Rightarrow> Inl e
              | Inr post_id \<Rightarrow>
                  (case json_get response_data ''fullUrl'' (JStr []) of
                     Inl e \<Rightarrow> Inl e
                   | Inr post_url \<Rightarrow>
                       (if truthy post_url then
                          Inr (check_mark @ '' Blog post published successfully!'' @ [CHR 0x0A]
                               @ ''Title: '' @ title @ [CHR 0x0A]
                               @ ''Post ID: '' @ py_str post_id @ [CHR 0x0A]
                               @ ''Public URL: '' @ py_str post_url)
                        else
                          Inr (check_mark @ '' Blog post created successfully with ID: ''
                               @ py_str post_id @ '', but URL not available in response.'')))))
      else if status_code r = 400 then
        (case json_result r of
           Inl _ \<Rightarrow> Inr (cross_mark @ '' Error creating blog post: Bad request (HTTP 400)'')
         | Inr error_data \<Rightarrow>
             (case json_get error_data ''message'' (JStr ''Bad request'') of
                Inl e \<Rightarrow> Inl e
              | Inr error_message \<Rightarrow>
                  Inr (cross_mark @ '' Error creating blog post: '' @ py_str error_message
                       @ '' (HTTP 400)'')))
      else if status_code r = 401 then
        Inr (cross_mark @ '' Error: Unauthorized. Please check your SQUARESPACE_API_KEY.'')
      else if status_code r = 403 then
        Inr (cross_mark @ '' Error: Forbidden. Your API key may not have permission to create blog posts.'')
      else if status_code r = 404 then
        Inr (cross_mark @ '' Error: Site not found. Please check your SQUARESPACE_SITE_ID.'')
      else if status_code r = 429 then
        Inr (cross_mark @ '' Error: Rate limit exceeded. Please try again later.'')
      else
        (case json_result r of
           Inl _ \<Rightarrow>
             Inr (cross_mark @ '' Error creating blog post: HTTP '' @ str_int (status_code r)
                  @ '' - '' @ take 200 (body_text r))
         | Inr error_data \<Rightarrow>
             (case json_get error_data ''message'' (JStr (''HTTP '' @ str_int (status_code r))) of
                Inl e \<Rightarrow> Inl e
              | Inr error_message \<Rightarrow>
                  Inr (cross_mark @ '' Error creating blog post: '' @ py_str error_message))))"

text \<open>\<open>not os.getenv(k)\<close>: the variable is unset or empty.\<close>

definition unset :: "string option \<Rightarrow> bool" where
  "unset v = (case v of None \<Rightarrow> True | Some x \<Rightarrow> x = [])"

text \<open>The value of a variable in an f-string.\<close>

definition env_str :: "string option \<Rightarrow> string" where
  "env_str v = (case v of None \<Rightarrow> ''None'' | Some x \<Rightarrow> x)"

definition sq_validate :: "string option \<Rightarrow> string option \<Rightarrow> string option" where
  "sq_validate api_key site_id =
     (if unset api_key then
        Some ''Error: SQUARESPACE_API_KEY environment variable is required''
      else if unset site_id then
        Some ''Error: SQUARESPACE_SITE_ID environment variable is required''
      else None)"

definition sq_make_request ::
  "string option \<Rightarrow> string option \<Rightarrow> string \<Rightarrow> string \<Rightarrow> string option
     \<Rightarrow> string list option \<Rightarrow> sq_request" where
  "sq_make_request api_key site_id title body excerpt tags =
     \<lparr> sq_url = ''https://api.squarespace.com/1.0/sites/'' @ env_str site_id @ ''/blog/posts'',
       sq_headers =
         [ (''Authorization'', ''Bearer '' @ env_str api_key),
           (''Content-Type'', ''application/json''),
           (''User-Agent'', ''CrewAI-SquarespacePublishingTool/1.0'') ],
       sq_json =
         [ (''title'', JStr title), (''body'', JStr body),
           (''publishOn'', JStr ''now''), (''type'', JStr ''text'') ]
         @ (case excerpt of
              None \<Rightarrow> []
            | Some x \<Rightarrow> if x \<noteq> [] then [(''excerpt'', JStr x)] else [])
         @ (case tags of
              None \<Rightarrow> []
            | Some ts \<Rightarrow> if ts \<noteq> [] then [(''tags'', JArr (map JStr ts))] else []),
       sq_timeout = 30 \<rparr>"

definition sq_try ::
  "environ \<Rightarrow> (sq_request \<Rightarrow> exn + response) \<Rightarrow> string \<Rightarrow> string \<Rightarrow> string option
     \<Rightarrow> string list option \<Rightarrow> (exn + string) \<times> sq_request list" where
  "sq_try env post title body excerpt tags =
     (let api_key = env ''SQUARESPACE_API_KEY'';
          site_id = env ''SQUARESPACE_SITE_ID''
      in case sq_validate api_key site_id of
           Some err \<Rightarrow> (Inr err, [])
         | None \<Rightarrow>
             (let req = sq_make_request api_key site_id title body excerpt tags
              in case post req of
                   Inl e \<Rightarrow> (Inl e, [req])
                 | Inr r \<Rightarrow> (sq_respond title r, [req])))"

definition sq_except :: "exn \<Rightarrow> exn + string" where
  "sq_except e =
     (case e of
        Timeout _ \<Rightarrow> Inr (cross_mark @ '' Error: Request timed out. Please try again.'')
      | ConnectionError _ \<Rightarrow>
          Inr (cross_mark @ '' Error: Could not connect to Squarespace API. Please check your internet connection.'')
      | RequestException m \<Rightarrow> Inr (cross_mark @ '' Error making API request: '' @ m)
      | JSONDecodeError m \<Rightarrow> Inr (cross_mark @ '' Error making API request: '' @ m)
      | AttributeError m \<Rightarrow> Inr (cross_mark @ '' Unexpected error: '' @ m)
      | OtherException m \<Rightarrow> Inr (cross_mark @ '' Unexpected error: '' @ m)
      | BaseExc m \<Rightarrow> Inl (BaseExc m))"

definition sq_run ::
  "environ \<Rightarrow> (sq_request \<Rightarrow> exn + response) \<Rightarrow> string \<Rightarrow> string \<Rightarrow> string option
     \<Rightarrow> string list option \<Rightarrow> (exn + string) \<times> sq_request list" where
  "sq_run env post title body excerpt tags =
     (case sq_try env post title body excerpt tags of
        (Inl e, posted) \<Rightarrow> (sq_except e, posted)
      | (Inr s, posted) \<Rightarrow> (Inr s, posted))"

section \<open>Vector store client\<close>

text \<open>\<open>PineconeStorageTool._run\<close>. A \<open>Dict[str, Any]\<close> argument is a list of
  items.\<close>

record pc_metadata =
  md_content_type :: string
  md_content_text :: string
  md_performance_metrics :: "(string \<times> json) list"
  md_story_characteristics :: "(string \<times> json) list"
  md_text_length :: nat
  md_word_count :: nat

record pc_vector =
  vec_id :: string
  vec_values :: "real list"
  vec_metadata :: pc_metadata

record pc_request =
  pc_url :: string
  pc_headers :: "(string \<times> string) list"
  pc_vectors :: "pc_vector list"
  pc_timeout :: nat

definition get_pinecone_host :: "string \<Rightarrow> string \<Rightarrow> string" where
  "get_pinecone_host environment index_name =
     ''https://'' @ index_name @ ''-'' @ environment @ ''.svc.pinecone.io''"

text \<open>In the 200 branch nothing catches a \<open>JSONDecodeError\<close>; in the other
  branch a bare \<open>except\<close> does.\<close>

definition pc_respond :: "string \<Rightarrow> string \<Rightarrow> response \<Rightarrow> exn + string" where
  "pc_respond content_id index_name r =
     (if status_code r = 200 then
        (case json_result r of
           Inl m \<Rightarrow> Inl (JSONDecodeError m)
         | Inr result \<Rightarrow>
             (case json_get result ''upsertedCount'' (JInt 0) of
                Inl e \<Rightarrow> Inl e
              | Inr upserted_count \<Rightarrow>
                  Inr (''Success: Stored performance data for content_id '' @ apostrophe
                       @ content_id @ apostrophe @ ''. Upserted '' @ py_str upserted_count
                       @ '' vector(s) in Pinecone index '' @ apostrophe @ index_name
                       @ apostrophe @ ''.'')))
      else
        (let error_msg = ''Pinecone API error (status '' @ str_int (status_code r) @ '')''
         in case json_result r of
              Inl _ \<Rightarrow> Inr (''Error: '' @ error_msg @ '': '' @ body_text r)
            | Inr error_detail \<Rightarrow> Inr (''Error: '' @ error_msg @ '': '' @ py_str error_detail)))"

text \<open>The two checks before the request: the configuration, then the content
  type.\<close>

definition pc_validate ::
  "string option \<Rightarrow> string option \<Rightarrow> string option \<Rightarrow> string \<Rightarrow> string option" where
  "pc_validate api_key environment index_name content_type =
     (if unset api_key \<or> unset environment \<or> unset index_name then
        Some ''Error: Missing required environment variables (PINECONE_API_KEY, PINECONE_ENVIRONMENT, PINECONE_INDEX_NAME)''
      else if content_type \<notin> set [''facebook_post'', ''blog_post''] then
        Some (''Error: content_type must be either '' @ apostrophe @ ''facebook_post''
              @ apostrophe @ '' or '' @ apostrophe @ ''blog_post'' @ apostrophe)
      else None)"

definition pc_make_request ::
  "string \<Rightarrow> string \<Rightarrow> string \<Rightarrow> string \<Rightarrow> string \<Rightarrow> (string \<times> json) list \<Rightarrow> string
     \<Rightarrow> (string \<times> json) list \<Rightarrow> pc_request" where
  "pc_make_request api_key environment index_name content_id content_text performance_metrics
       content_type story_characteristics =
     (let embedding = create_simple_embedding content_text 384;
          metadata =
            \<lparr> md_content_type = content_type,
              md_content_text = take 1000 content_text,
              md_performance_metrics = performance_metrics,
              md_story_characteristics = story_characteristics,
              md_text_length = length content_text,
              md_word_count = length (py_split content_text) \<rparr>;
          host = get_pinecone_host environment index_name
      in \<lparr> pc_url = host @ ''/vectors/upsert'',
           pc_headers = [(''Api-Key'', api_key), (''Content-Type'', ''application/json'')],
           pc_vectors =
             [\<lparr> vec_id = content_id, vec_values = embedding, vec_metadata = metadata \<rparr>],
           pc_timeout = 30 \<rparr>)"

definition pc_try ::
  "environ \<Rightarrow> (pc_request \<Rightarrow> exn + response) \<Rightarrow> string \<Rightarrow> string \<Rightarrow> (string \<times> json) list
     \<Rightarrow> string \<Rightarrow> (string \<times> json) list \<Rightarrow> (exn + string) \<times> pc_request list" where
  "pc_try env post content_id content_text performance_metrics content_type
       story_characteristics =
     (let api_key = env ''PINECONE_API_KEY'';
          environment = env ''PINECONE_ENVIRONMENT'';
          index_name = env ''PINECONE_INDEX_NAME''
      in case pc_validate api_key environment index_name content_type of
           Some err \<Rightarrow> (Inr err, [])
         | None \<Rightarrow>
             (let req = pc_make_request (env_str api_key) (env_str environment)
                          (env_str index_name) content_id content_text performance_metrics
                          content_type story_characteristics
              in case post req of
                   Inl e \<Rightarrow> (Inl e, [req])
                 | Inr r \<Rightarrow> (pc_respond content_id (env_str index_name) r, [req])))"

definition pc_except :: "exn \<Rightarrow> exn + string" where
  "pc_except e =
     (case e of
        Timeout _ \<Rightarrow> Inr ''Error: Request to Pinecone API timed out. Please try again.''
      | ConnectionError _ \<Rightarrow>
          Inr ''Error: Could not connect to Pinecone API. Please check your internet connection and Pinecone configuration.''
      | RequestException m \<Rightarrow> Inr (''Error: Request failed - '' @ m)
      | JSONDecodeError m \<Rightarrow> Inr (''Error: Request failed - '' @ m)
      | AttributeError m \<Rightarrow> Inr (''Error: An unexpected error occurred - '' @ m)
      | OtherException m \<Rightarrow> Inr (''Error: An unexpected error occurred - '' @ m)
      | BaseExc m \<Rightarrow> Inl (BaseExc m))"

definition pc_run ::
  "environ \<Rightarrow> (pc_request \<Rightarrow> exn + response) \<Rightarrow> string \<Rightarrow> string \<Rightarrow> (string \<times> json) list
     \<Rightarrow> string \<Rightarrow> (string \<times> json) list \<Rightarrow> (exn + string) \<times> pc_request list" where
  "pc_run env post content_id content_text performance_metrics content_type
       story_characteristics =
     (case pc_try env post content_id content_text performance_metrics content_type
             story_characteristics of
        (Inl e, posted) \<Rightarrow> (pc_except e, posted)
      | (Inr s, posted) \<Rightarrow> (Inr s, posted))"

section \<open>Pipeline orchestrator\<close>

text \<open>
  \<open>StVincentDePaulSmartContentMarketingAutomationCrew\<close>: six agents, eight tasks,
  and \<open>crew\<close>, which hands the agents and the tasks, in the order of their
  declaration, to a \<open>Crew\<close> with \<open>process = Process.sequential\<close>.
\<close>

datatype agent =
    Story_database_manager
  | Content_creator
  | Brand_compliance_officer
  | Approval_manager
  | Publishing_coordinator
  | Performance_analytics_manager

datatype task =
    Retrieve_optimal_story_from_excel_database
  | Research_high_performance_content_patterns
  | Generate_facebook_content
  | Generate_blog_content
  | Brand_compliance_review
  | Send_approval_request
  | Publish_approved_content
  | Track_performance_and_store_in_pinecone

datatype process = Sequential | Hierarchical

record crew_config =
  agents :: "agent list"
  tasks :: "task list"
  process :: process
  verbose :: bool

definition crew :: crew_config where
  "crew =
     \<lparr> agents =
         [ Story_database_manager, Content_creator, Brand_compliance_officer,
           Approval_manager, Publishing_coordinator, Performance_analytics_manager ],
       tasks =
         [ Retrieve_optimal_story_from_excel_database,
           Research_high_performance_content_patterns,
           Generate_facebook_content, Generate_blog_content,
           Brand_compliance_review, Send_approval_request,
           Publish_approved_content, Track_performance_and_store_in_pinecone ],
       process = Sequential,
       verbose = True \<rparr>"

text \<open>
  Modelled from the spec: what a stage produces. Missing from \<open>src/\<close> is all the
  code that runs the tasks of the crew (the run of the sequential crew, and the
  configuration of the tasks and of their outputs); \<open>crew.py\<close> only declares the
  agents, the tasks and their order. Spec 3: the compliance review gives a
  ComplianceVerdict "{approved: bool, notes: string}", the approval request an
  ApprovalDecision "{approved: bool, approver, timestamp}", of which the gate reads
  \<open>approved\<close>; the other stages give text.
\<close>

datatype task_output =
    Output string
  | ComplianceVerdict bool string
  | ApprovalDecision bool

text \<open>
  Modelled from the spec: the result of one stage, missing from \<open>src/\<close> with the
  stage runner. Spec 4.4: a stage "produces a typed output", or is "a failing stage"
  that "surfaces its error".
\<close>

datatype stage_result = Produced task_output | Raised string

text \<open>
  Modelled from the spec: what the agent of a stage does, a parameter of a run (the
  agents are language models). Spec 4.4: "Each stage consumes the prior stage's
  output plus shared context"; here a stage is given the outputs of all the stages
  before it.
\<close>

type_synonym performer = "task \<Rightarrow> task_output list \<Rightarrow> stage_result"

text \<open>
  Modelled from the spec: the terminal states of a run, missing from \<open>src/\<close> with
  the stage runner. Spec 4.4: the "pipeline completes when Publish +
  RecordPerformance finish", or "the run ends in a "rejected" terminal state", or a
  failing stage surfaces its error.
\<close>

datatype terminal = Completed | Rejected | Failed string

text \<open>
  Modelled from the spec: the type of output of each stage, missing from \<open>src/\<close>
  with the configuration of the tasks. Spec 4.4: each stage "produces a typed output
  consumed by the next stage"; by spec 3 the verdict is the output of the compliance
  review and the decision that of the approval request.
\<close>

definition produces :: "task \<Rightarrow> task_output \<Rightarrow> bool" where
  "produces t out =
     (case out of
        ComplianceVerdict approved notes \<Rightarrow> t = Brand_compliance_review
      | ApprovalDecision approved \<Rightarrow> t = Send_approval_request
      | Output s \<Rightarrow> t \<noteq> Brand_compliance_review \<and> t \<noteq> Send_approval_request)"

text \<open>
  Modelled from the spec: the rejection signal of the two gates, missing from
  \<open>src/\<close> with the stage runner. Spec 4.4: the run "halts early if
  ComplianceReview or RequestApproval yields a rejection".
\<close>

definition rejection :: "task_output \<Rightarrow> bool" where
  "rejection out =
     (case out of
        ComplianceVerdict approved notes \<Rightarrow> \<not> approved
      | ApprovalDecision approved \<Rightarrow> \<not> approved
      | Output s \<Rightarrow> False)"

text \<open>
  Modelled from the spec: the stage runner of the pipeline orchestrator, missing
  from \<open>src/\<close>. Spec 4.4: a "state machine over named stages executed strictly in
  sequence (no parallelism, no branching, no loops)"; it "halts early if
  ComplianceReview or RequestApproval yields a rejection (downstream stages are
  skipped; the run ends in a "rejected" terminal state rather than proceeding)";
  "a failing stage surfaces its error and the pipeline does not silently continue
  with stale data". A stage that does not produce an output of its type has failed.
  The result is the list of the stages invoked, each with its result, and the
  terminal state.
\<close>

fun run_stages ::
  "performer \<Rightarrow> task_output list \<Rightarrow> task list \<Rightarrow> (task \<times> stage_result) list \<times> terminal" where
  "run_stages perform ctx [] = ([], Completed)"
| "run_stages perform ctx (t # ts) =
     (case perform t ctx of
        Raised e \<Rightarrow> ([(t, Raised e)], Failed e)
      | Produced out \<Rightarrow>
          if \<not> produces t out then ([(t, Produced out)], Failed ''stage output of the wrong type'')
          else if rejection out then ([(t, Produced out)], Rejected)
          else (case run_stages perform (ctx @ [out]) ts of
                  (trace, final) \<Rightarrow> ((t, Produced out) # trace, final)))"

text \<open>
  Modelled from the spec: a run of the pipeline, the stage runner (missing from
  \<open>src/\<close>) over the tasks of the crew, which \<open>crew.py\<close> declares in the order of
  spec 4.4: Retrieve, Research, GenerateSocial, GenerateBlog, ComplianceReview,
  RequestApproval, Publish, RecordPerformance.
\<close>

definition run_pipeline :: "performer \<Rightarrow> crew_config \<Rightarrow> (task \<times> stage_result) list \<times> terminal" where
  "run_pipeline perform c = run_stages perform [] (tasks c)"

text \<open>
  Modelled from the spec: the stages invoked in a run and what a stage produced in
  it, read from the result of the stage runner above.
\<close>

definition invoked :: "(task \<times> stage_result) list \<times> terminal \<Rightarrow> task list" where
  "invoked run = map fst (fst run)"

definition produced :: "(task \<times> stage_result) list \<times> terminal \<Rightarrow> task \<Rightarrow> task_output option" where
  "produced run t =
     (case map_of (fst run) t of
        Some (Produced out) \<Rightarrow> Some out
      | _ \<Rightarrow> None)"

text \<open>Two performers for the examples: agents that approve at both gates, and
  agents that reject at the compliance review.\<close>

definition approving :: performer where
  "approving t ctx =
     Produced (if t = Brand_compliance_review then ComplianceVerdict True ''on brand''
               else if t = Send_approval_request then ApprovalDecision True
               else Output [])"

definition rejecting :: performer where
  "rejecting t ctx =
     Produced (if t = Brand_compliance_review then ComplianceVerdict False ''off brand''
               else if t = Send_approval_request then ApprovalDecision True
               else Output [])"

text \<open>Stub servers: one that answers every request with \<open>r\<close>, one that fails
  every request with \<open>e\<close>.\<close>

definition respond_with :: "response \<Rightarrow> 'req \<Rightarrow> exn + response" where
  "respond_with r req = Inr r"

definition fail_with :: "exn \<Rightarrow> 'req \<Rightarrow> exn + response" where
  "fail_with e req = Inl e"

text \<open>A configured environment and three responses, for the examples.\<close>

definition test_env :: environ where
  "test_env =
     [ ''SQUARESPACE_API_KEY'' \<mapsto> ''key'', ''SQUARESPACE_SITE_ID'' \<mapsto> ''site'',
       ''PINECONE_API_KEY'' \<mapsto> ''key'', ''PINECONE_ENVIRONMENT'' \<mapsto> ''us-east1'',
       ''PINECONE_INDEX_NAME'' \<mapsto> ''stories'' ]"

definition bad_request_oauth :: response where
  "bad_request_oauth =
     \<lparr> status_code = 400,
       json_result = Inr (JObj [(''error'', JStr ''invalid_request'')]),
       body_text = [CHR 0x7B, CHR 0x22] @ ''error'' @ [CHR 0x22] @ '': '' @ [CHR 0x22]
                   @ ''invalid_request'' @ [CHR 0x22, CHR 0x7D],
       reason = ''Bad Request'' \<rparr>"

definition bad_request_no_json :: response where
  "bad_request_no_json =
     \<lparr> status_code = 400,
       json_result = Inl ''Expecting value: line 1 column 1 (char 0)'',
       body_text = ''Bad Request'',
       reason = ''Bad Request'' \<rparr>"

definition server_error_list :: response where
  "server_error_list =
     \<lparr> status_code = 500,
       json_result = Inr (JArr []),
       body_text = ''[]'',
       reason = ''Internal Server Error'' \<rparr>"

section \<open>The publishers and the requests they make\<close>

text \<open>
  The server as a publisher meets it. What it does with a request may depend on how
  many requests it has had before (\<open>outcomes\<close>, by the number of the attempt), and
  it keeps every request made to it (\<open>calls\<close>).
\<close>

record 'req world =
  outcomes :: "nat \<Rightarrow> 'req \<Rightarrow> exn + response"
  calls :: "'req list"

text \<open>\<open>requests.post\<close>: one request made to the server. Nothing else reads
  \<open>outcomes\<close> or adds to \<open>calls\<close>.\<close>

definition requests_post :: "'req \<Rightarrow> 'req world \<Rightarrow> (exn + response) \<times> 'req world" where
  "requests_post req w =
     (outcomes w (length (calls w)) req, w \<lparr> calls := calls w @ [req] \<rparr>)"

text \<open>\<open>FacebookPublishingTool._run\<close>, statement by statement, with the server
  passed through: the body of the outer \<open>try\<close>, then the \<open>except\<close> clauses.\<close>

definition fb_try_io ::
  "environ \<Rightarrow> string \<Rightarrow> string \<Rightarrow> string \<Rightarrow> fb_request world
     \<Rightarrow> (exn + string) \<times> fb_request world" where
  "fb_try_io env message page_access_token page_id w =
     (let access_token = fb_access_token env page_access_token;
          fb_page_id = fb_page env page_id
      in case fb_validate access_token fb_page_id message of
           Some err \<Rightarrow> (Inr err, w)
         | None \<Rightarrow>
             (case requests_post (fb_make_request access_token fb_page_id message) w of
                (Inl e, w') \<Rightarrow> (Inl e, w')
              | (Inr r, w') \<Rightarrow> (fb_respond fb_page_id r, w')))"

definition fb_run_io ::
  "environ \<Rightarrow> string \<Rightarrow> string \<Rightarrow> string \<Rightarrow> fb_request world
     \<Rightarrow> (exn + string) \<times> fb_request world" where
  "fb_run_io env message page_access_token page_id w =
     (case fb_try_io env message page_access_token page_id w of
        (Inl e, w') \<Rightarrow> (fb_except e, w')
      | (Inr s, w') \<Rightarrow> (Inr s, w'))"

text \<open>\<open>SquarespacePublishingTool._run\<close>, in the same way.\<close>

definition sq_try_io ::
  "environ \<Rightarrow> string \<Rightarrow> string \<Rightarrow> string option \<Rightarrow> string list option \<Rightarrow> sq_request world
     \<Rightarrow> (exn + string) \<times> sq_request world" where
  "sq_try_io env title body excerpt tags w =
     (let api_key = env ''SQUARESPACE_API_KEY'';
          site_id = env ''SQUARESPACE_SITE_ID''
      in case sq_validate api_key site_id of
           Some err \<Rightarrow> (Inr err, w)
         | None \<Rightarrow>
             (case requests_post (sq_make_request api_key site_id title body excerpt tags) w of
                (Inl e, w') \<Rightarrow> (Inl e, w')
              | (Inr r, w') \<Rightarrow> (sq_respond title r, w')))"

definition sq_run_io ::
  "environ \<Rightarrow> string \<Rightarrow> string \<Rightarrow> string option \<Rightarrow> string list option \<Rightarrow> sq_request world
     \<Rightarrow> (exn + string) \<times> sq_request world" where
  "sq_run_io env title body excerpt tags w =
     (case sq_try_io env title body excerpt tags w of
        (Inl e, w') \<Rightarrow> (sq_except e, w')
      | (Inr s, w') \<Rightarrow> (Inr s, w'))"

text \<open>A server that has had no request yet and treats every attempt alike, as
  \<open>post\<close> says.\<close>

definition steady :: "('req \<Rightarrow> exn + response) \<Rightarrow> 'req world" where
  "steady post = \<lparr> outcomes = (\<lambda>n. post), calls = [] \<rparr>"

text \<open>Two servers for the examples. Both let the first request time out; \<open>flaky\<close>
  accepts every later one, \<open>down\<close> none.\<close>

definition published :: response where
  "published =
     \<lparr> status_code = 200,
       json_result = Inr (JObj [(''id'', JStr ''123'')]),
       body_text = [],
       reason = ''OK'' \<rparr>"

definition flaky :: "'req world" where
  "flaky =
     \<lparr> outcomes = (\<lambda>n req. if n = 0 then Inl (Timeout []) else Inr published),
       calls = [] \<rparr>"

definition down :: "'req world" where
  "down = steady (fail_with (Timeout []))"

section \<open>Properties of the embedding generator\<close>

lemma pad_features_eq: "pad_features fs d = fs @ replicate (nat (d - int (length fs))) 0"
proof (induction fs d rule: pad_features.induct)
  case (1 fs d)
  show ?case
  proof (cases "int (length fs) < d")
    case True
    then have n: "nat (d - int (length fs)) = Suc (nat (d - int (length (fs @ [0::real]))))"
      by simp
    from True have "pad_features fs d = pad_features (fs @ [0]) d"
      by (subst pad_features.simps) simp
    also have "\<dots> = (fs @ [0]) @ replicate (nat (d - int (length (fs @ [0::real])))) 0"
      using 1 True by simp
    also have "\<dots> = fs @ replicate (nat (d - int (length fs))) 0"
      by (simp only: n replicate_Suc append_assoc append_Cons append_Nil)
    finally show ?thesis .
  next
    case False
    then show ?thesis by (subst pad_features.simps) simp
  qed
qed

lemma code_lower_upper: "py_isupper c \<Longrightarrow> code (lower_char c) = code c + 32"
  by (auto simp: lower_char_def py_isupper_def code_def Let_def)

lemma not_upper_lower: "\<not> py_isupper (lower_char c)"
proof (cases "py_isupper c")
  case True
  from code_lower_upper [OF True] True show ?thesis
    by (auto simp: py_isupper_def Let_def)
next
  case False
  then show ?thesis by (simp add: lower_char_def)
qed

lemma space_not_upper: "py_isspace c \<Longrightarrow> \<not> py_isupper c"
  by (auto simp: py_isspace_def py_isupper_def Let_def)

lemma lower_space: "py_isspace c \<Longrightarrow> lower_char c = c"
  by (simp add: lower_char_def space_not_upper)

lemma no_upper_in_normalised: "filter py_isupper (py_strip (py_lower t)) = []"
proof -
  have "set (py_strip (py_lower t)) \<subseteq> set (py_lower t)"
    by (auto simp: py_strip_def dest!: set_dropWhileD)
  then have "\<forall>c \<in> set (py_strip (py_lower t)). \<not> py_isupper c"
    by (auto simp: py_lower_def not_upper_lower)
  then show ?thesis by (simp add: filter_empty_conv)
qed

lemma strip_margins:
  assumes l: "\<forall>c \<in> set l. py_isspace c" and r: "\<forall>c \<in> set r. py_isspace c"
  shows "py_strip (l @ x @ r) = py_strip x"
proof -
  have a: "dropWhile py_isspace (l @ x @ r) = dropWhile py_isspace (x @ r)"
    using l by (simp add: dropWhile_append2)
  have b: "dropWhile py_isspace (rev (dropWhile py_isspace (x @ r)))
         = dropWhile py_isspace (rev (dropWhile py_isspace x))"
  proof (cases "\<forall>c \<in> set x. py_isspace c")
    case True
    then have "dropWhile py_isspace (x @ r) = []" and "dropWhile py_isspace x = []"
      using r by (simp_all add: dropWhile_eq_Nil_conv)
    then show ?thesis by (simp only:)
  next
    case False
    then have "dropWhile py_isspace (x @ r) = dropWhile py_isspace x @ r"
      by (auto simp: dropWhile_append1)
    moreover have "dropWhile py_isspace (rev r @ rev (dropWhile py_isspace x))
        = dropWhile py_isspace (rev (dropWhile py_isspace x))"
      by (rule dropWhile_append2) (use r in simp)
    ultimately show ?thesis by simp
  qed
  show ?thesis unfolding py_strip_def a b ..
qed








lemma length_base_features: "length (base_features txt) = 43"
  by (simp add: base_features_def scalar_features_def letter_features_def digit_features_def)

lemma raw_features_eq:
  assumes "0 \<le> d"
  shows "raw_features t d
     = take (nat d) (base_features (py_strip (py_lower t)) @ replicate (nat d - 43) 0)"
proof -
  have n: "nat (d - 43) = nat d - 43"
    using assms by linarith
  have "\<not> d < 0" using assms by simp
  then show ?thesis
    by (simp add: raw_features_def slice_to_def pad_features_eq length_base_features n)
qed

lemma length_normalize_vector: "length (normalize_vector fs) = length fs"
  by (simp add: normalize_vector_def)

text \<open>
  Claim C2. For every text, the empty one included, and every dimension \<open>d\<close> (a
  length, so \<open>0 \<le> d\<close>), the embedding has exactly \<open>d\<close> entries: the 43
  features are padded with zeros or cut to \<open>d\<close> entries, and the vector of the
  \<open>except\<close> clause has \<open>d\<close> entries too.
\<close>
theorem embedding_length:
  assumes "0 \<le> d"
  shows "length (create_simple_embedding t d) = nat d
       \<and> raw_features t d
           = take (nat d) (base_features (py_strip (py_lower t)) @ replicate (nat d - 43) 0)
       \<and> length (default_vector d) = nat d"
proof -
  have "length (raw_features t d) = nat d"
    using assms by (simp add: raw_features_eq length_base_features)
  then have "length (create_simple_embedding t d) = nat d"
    by (simp add: create_simple_embedding_def embedding_body_def length_normalize_vector)
  then show ?thesis
    using assms by (simp add: raw_features_eq default_vector_def)
qed

theorem embedding_length_witness:
  "(0::int) \<le> 384 \<and> length (create_simple_embedding [] 384) = 384
   \<and> length (create_simple_embedding ''A volunteer story'' 5) = 5
   \<and> length (default_vector 384) = 384"
proof -
  have h: "(0::int) \<le> 384" and k: "(0::int) \<le> 5" by simp_all
  have a: "length (create_simple_embedding [] 384) = nat 384"
    using embedding_length [OF h, of "[]"] by (rule conjunct1)
  have b: "length (create_simple_embedding ''A volunteer story'' 5) = nat 5"
    using embedding_length [OF k, of "''A volunteer story''"] by (rule conjunct1)
  have c: "length (default_vector 384) = nat 384"
    using embedding_length [OF h, of "[]"] by (elim conjE)
  from a b c show ?thesis by simp
qed





lemma sixth_feature_zero: "6 \<le> d \<Longrightarrow> raw_features t d ! 5 = 0"
  by (simp add: raw_features_eq base_features_def scalar_features_def no_upper_in_normalised)

text \<open>
  Claim C9. The sixth scalar feature is meant to count the uppercase letters of the
  input text. It is computed on the lowercased text, so it is 0 for every text
  (\<open>sixth_feature_zero\<close>): for \<open>Hello\<close>, which has one uppercase letter, it is 0.
\<close>
theorem uppercase_feature_lost:
  "raw_features ''Hello'' 384 ! 5 = 0 \<and> real (length (filter py_isupper ''Hello'')) = 1"
  by (simp add: sixth_feature_zero py_isupper_def code_def)

lemma lower_space_list: "\<forall>c \<in> set l. py_isspace c \<Longrightarrow> py_lower l = l"
  by (simp add: py_lower_def lower_space map_idI)

text \<open>
  Claim C10. The embedding depends only on the lowercased, stripped text: a text
  \<open>u\<close> that differs from \<open>t\<close> in letter case only, with any whitespace
  \<open>l\<close> before it and \<open>r\<close> after it, has the embedding of \<open>t\<close>.
\<close>
theorem embedding_case_margin_invariant:
  assumes "\<forall>c \<in> set l. py_isspace c" and "\<forall>c \<in> set r. py_isspace c"
    and "py_lower u = py_lower t"
  shows "create_simple_embedding (l @ u @ r) d = create_simple_embedding t d"
proof -
  have "py_lower (l @ u @ r) = py_lower l @ py_lower u @ py_lower r"
    by (simp add: py_lower_def)
  also have "\<dots> = l @ py_lower t @ r"
    by (simp only: lower_space_list [OF assms(1)] lower_space_list [OF assms(2)] assms(3))
  finally have "py_lower (l @ u @ r) = l @ py_lower t @ r" .
  then have "py_strip (py_lower (l @ u @ r)) = py_strip (py_lower t)"
    using assms(1,2) by (simp add: strip_margins)
  then show ?thesis
    by (simp add: create_simple_embedding_def embedding_body_def raw_features_def)
qed

theorem embedding_case_margin_invariant_witness:
  "py_isspace CHR '' '' \<and> py_isspace CHR 0x0A
   \<and> py_lower ''Ab'' = py_lower ''aB''
   \<and> create_simple_embedding ('' '' @ ''Ab'' @ [CHR 0x0A]) 384 = create_simple_embedding ''aB'' 384"
proof -
  have s: "py_isspace CHR '' ''" and n: "py_isspace CHR 0x0A"
    by (simp_all add: py_isspace_def code_def)
  have 1: "\<forall>c \<in> set '' ''. py_isspace c" using s by simp
  have 2: "\<forall>c \<in> set [CHR 0x0A]. py_isspace c" using n by simp
  have 3: "py_lower ''Ab'' = py_lower ''aB''"
    by code_simp
  from s n 3 embedding_case_margin_invariant [OF 1 2 3, of 384] show ?thesis
    by (intro conjI)
qed

section \<open>Properties of the orchestrator\<close>

text \<open>When a stage is invoked, every stage before it in the list has produced an
  output of its type that is no rejection.\<close>

lemma later_invoked_earlier_passed:
  assumes "distinct (pre @ g # post)" and "x \<in> set post"
    and "x \<in> set (map fst (fst (run_stages perform ctx (pre @ g # post))))"
  shows "\<exists>out. map_of (fst (run_stages perform ctx (pre @ g # post))) g = Some (Produced out)
           \<and> produces g out \<and> \<not> rejection out"
  using assms
proof (induction pre arbitrary: ctx)
  case Nil
  then have xg: "x \<noteq> g" by auto
  show ?case
  proof (cases "perform g ctx")
    case (Raised e)
    with Nil.prems(3) xg show ?thesis by simp
  next
    case (Produced out)
    show ?thesis
    proof (cases "produces g out \<and> \<not> rejection out")
      case False
      with Nil.prems(3) Produced xg show ?thesis by (auto split: if_splits)
    next
      case True
      with Produced show ?thesis by (simp split: prod.splits)
    qed
  qed
next
  case (Cons a pre)
  then have xa: "x \<noteq> a" and ga: "g \<noteq> a" and d: "distinct (pre @ g # post)"
    by auto
  show ?case
  proof (cases "perform a ctx")
    case (Raised e)
    with Cons.prems(3) xa show ?thesis by simp
  next
    case (Produced o2)
    show ?thesis
    proof (cases "produces a o2 \<and> \<not> rejection o2")
      case False
      with Cons.prems(3) Produced xa show ?thesis by (auto split: if_splits)
    next
      case True
      obtain trace final where
        rec: "run_stages perform (ctx @ [o2]) (pre @ g # post) = (trace, final)"
        by (cases "run_stages perform (ctx @ [o2]) (pre @ g # post)")
      with True Produced have
        whole: "fst (run_stages perform ctx ((a # pre) @ g # post)) = (a, Produced o2) # trace"
        by simp
      with Cons.prems(3) xa have "x \<in> set (map fst trace)" by auto
      with Cons.IH [OF d Cons.prems(2), of "ctx @ [o2]"] rec
      have "\<exists>out. map_of trace g = Some (Produced out) \<and> produces g out \<and> \<not> rejection out"
        by simp
      with whole ga show ?thesis by simp
    qed
  qed
qed

text \<open>A stage that produced a rejection is the last one invoked, and the run ends
  rejected.\<close>

lemma run_stages_rejected:
  "(t, Produced out) \<in> set (fst (run_stages perform ctx ts)) \<Longrightarrow> produces t out
     \<Longrightarrow> rejection out
     \<Longrightarrow> snd (run_stages perform ctx ts) = Rejected
         \<and> last (fst (run_stages perform ctx ts)) = (t, Produced out)"
proof (induction ts arbitrary: ctx)
  case Nil
  then show ?case by simp
next
  case (Cons a ts)
  show ?case
  proof (cases "perform a ctx")
    case (Raised e)
    with Cons.prems show ?thesis by simp
  next
    case (Produced o2)
    show ?thesis
    proof (cases "produces a o2 \<and> \<not> rejection o2")
      case False
      with Cons.prems Produced show ?thesis by (auto split: if_splits)
    next
      case True
      obtain trace final where rec: "run_stages perform (ctx @ [o2]) ts = (trace, final)"
        by (cases "run_stages perform (ctx @ [o2]) ts")
      with True Produced Cons.prems have "(t, Produced out) \<in> set trace"
        by auto
      with Cons.IH [of "ctx @ [o2]"] rec Cons.prems(2,3)
      have "final = Rejected \<and> last trace = (t, Produced out)" and "trace \<noteq> []"
        by auto
      with True Produced rec show ?thesis by simp
    qed
  qed
qed

lemma crew_tasks:
  "tasks crew =
     [ Retrieve_optimal_story_from_excel_database,
       Research_high_performance_content_patterns,
       Generate_facebook_content, Generate_blog_content,
       Brand_compliance_review, Send_approval_request,
       Publish_approved_content, Track_performance_and_store_in_pinecone ]"
  by (simp add: crew_def)

text \<open>The two gates of the crew: the stages before each, and the stages after.\<close>

lemma crew_tasks_at_review:
  "tasks crew =
     [ Retrieve_optimal_story_from_excel_database,
       Research_high_performance_content_patterns,
       Generate_facebook_content, Generate_blog_content ]
     @ Brand_compliance_review
     # [ Send_approval_request, Publish_approved_content,
         Track_performance_and_store_in_pinecone ]"
  by (simp add: crew_tasks)

lemma crew_tasks_at_approval:
  "tasks crew =
     [ Retrieve_optimal_story_from_excel_database,
       Research_high_performance_content_patterns,
       Generate_facebook_content, Generate_blog_content, Brand_compliance_review ]
     @ Send_approval_request
     # [ Publish_approved_content, Track_performance_and_store_in_pinecone ]"
  by (simp add: crew_tasks)

lemma crew_tasks_distinct: "distinct (tasks crew)"
  by (simp add: crew_tasks)

lemma passed_review:
  "produces Brand_compliance_review out \<Longrightarrow> \<not> rejection out
     \<Longrightarrow> \<exists>notes. out = ComplianceVerdict True notes"
  by (cases out) (simp_all add: produces_def rejection_def)

lemma passed_approval:
  "produces Send_approval_request out \<Longrightarrow> \<not> rejection out \<Longrightarrow> out = ApprovalDecision True"
  by (cases out) (simp_all add: produces_def rejection_def)

lemma invoked_after_review:
  assumes "x \<in> set [Send_approval_request, Publish_approved_content,
                      Track_performance_and_store_in_pinecone]"
    and "x \<in> set (invoked (run_pipeline perform crew))"
  shows "\<exists>notes. produced (run_pipeline perform crew) Brand_compliance_review
           = Some (ComplianceVerdict True notes)"
proof -
  from crew_tasks_distinct have d: "distinct
     ([ Retrieve_optimal_story_from_excel_database,
        Research_high_performance_content_patterns,
        Generate_facebook_content, Generate_blog_content ]
      @ Brand_compliance_review
      # [ Send_approval_request, Publish_approved_content,
          Track_performance_and_store_in_pinecone ])"
    by (simp only: crew_tasks_at_review)
  from assms(2) have "x \<in> set (map fst (fst (run_stages perform []
     ([ Retrieve_optimal_story_from_excel_database,
        Research_high_performance_content_patterns,
        Generate_facebook_content, Generate_blog_content ]
      @ Brand_compliance_review
      # [ Send_approval_request, Publish_approved_content,
          Track_performance_and_store_in_pinecone ]))))"
    by (simp only: invoked_def run_pipeline_def crew_tasks_at_review)
  from later_invoked_earlier_passed [OF d assms(1) this]
  obtain out where
    "map_of (fst (run_pipeline perform crew)) Brand_compliance_review = Some (Produced out)"
    and "produces Brand_compliance_review out" and "\<not> rejection out"
    unfolding run_pipeline_def crew_tasks_at_review by blast
  with passed_review show ?thesis
    by (auto simp: produced_def)
qed

lemma invoked_after_approval:
  assumes "x \<in> set [Publish_approved_content, Track_performance_and_store_in_pinecone]"
    and "x \<in> set (invoked (run_pipeline perform crew))"
  shows "produced (run_pipeline perform crew) Send_approval_request
           = Some (ApprovalDecision True)"
proof -
  from crew_tasks_distinct have d: "distinct
     ([ Retrieve_optimal_story_from_excel_database,
        Research_high_performance_content_patterns,
        Generate_facebook_content, Generate_blog_content, Brand_compliance_review ]
      @ Send_approval_request
      # [ Publish_approved_content, Track_performance_and_store_in_pinecone ])"
    by (simp only: crew_tasks_at_approval)
  from assms(2) have "x \<in> set (map fst (fst (run_stages perform []
     ([ Retrieve_optimal_story_from_excel_database,
        Research_high_performance_content_patterns,
        Generate_facebook_content, Generate_blog_content, Brand_compliance_review ]
      @ Send_approval_request
      # [ Publish_approved_content, Track_performance_and_store_in_pinecone ]))))"
    by (simp only: invoked_def run_pipeline_def crew_tasks_at_approval)
  from later_invoked_earlier_passed [OF d assms(1) this]
  obtain out where
    "map_of (fst (run_pipeline perform crew)) Send_approval_request = Some (Produced out)"
    and "produces Send_approval_request out" and "\<not> rejection out"
    unfolding run_pipeline_def crew_tasks_at_approval by blast
  with passed_approval show ?thesis
    by (auto simp: produced_def)
qed

lemma rejected_at_review:
  assumes "produced (run_pipeline perform crew) Brand_compliance_review
             = Some (ComplianceVerdict False notes)"
  shows "snd (run_pipeline perform crew) = Rejected"
proof -
  from assms have "map_of (fst (run_pipeline perform crew)) Brand_compliance_review
      = Some (Produced (ComplianceVerdict False notes))"
    by (auto simp: produced_def split: option.splits stage_result.splits)
  then have "(Brand_compliance_review, Produced (ComplianceVerdict False notes))
      \<in> set (fst (run_stages perform [] (tasks crew)))"
    unfolding run_pipeline_def by (rule map_of_SomeD)
  from run_stages_rejected [OF this] show ?thesis
    by (simp add: run_pipeline_def produces_def rejection_def)
qed

text \<open>
  Claim C1. In every run of the pipeline the publication is invoked only if the
  compliance review has produced a verdict with approved = true and the approval
  request a decision with approved = true; and whenever the verdict has approved =
  false, the run ends in the rejected terminal state and the approval request, the
  publication and the performance record are not invoked.
\<close>

theorem publish_only_when_approved:
  "(Publish_approved_content \<in> set (invoked (run_pipeline perform crew))
      \<longrightarrow> (\<exists>notes. produced (run_pipeline perform crew) Brand_compliance_review
                      = Some (ComplianceVerdict True notes))
          \<and> produced (run_pipeline perform crew) Send_approval_request
                = Some (ApprovalDecision True))
   \<and> ((\<exists>notes. produced (run_pipeline perform crew) Brand_compliance_review
                  = Some (ComplianceVerdict False notes))
      \<longrightarrow> snd (run_pipeline perform crew) = Rejected
          \<and> Send_approval_request \<notin> set (invoked (run_pipeline perform crew))
          \<and> Publish_approved_content \<notin> set (invoked (run_pipeline perform crew))
          \<and> Track_performance_and_store_in_pinecone \<notin> set (invoked (run_pipeline perform crew)))"
proof (intro conjI impI)
  assume p: "Publish_approved_content \<in> set (invoked (run_pipeline perform crew))"
  from invoked_after_review [OF _ p]
  show "\<exists>notes. produced (run_pipeline perform crew) Brand_compliance_review
          = Some (ComplianceVerdict True notes)"
    by simp
  from invoked_after_approval [OF _ p]
  show "produced (run_pipeline perform crew) Send_approval_request = Some (ApprovalDecision True)"
    by simp
next
  assume "\<exists>notes. produced (run_pipeline perform crew) Brand_compliance_review
            = Some (ComplianceVerdict False notes)"
  then obtain why where
    r: "produced (run_pipeline perform crew) Brand_compliance_review
          = Some (ComplianceVerdict False why)"
    by blast
  from rejected_at_review [OF r] show "snd (run_pipeline perform crew) = Rejected" .
  have no: "x \<notin> set (invoked (run_pipeline perform crew))"
    if "x \<in> set [Send_approval_request, Publish_approved_content,
                    Track_performance_and_store_in_pinecone]" for x
  proof
    assume "x \<in> set (invoked (run_pipeline perform crew))"
    from invoked_after_review [OF that this] r show False by simp
  qed
  from no [of Send_approval_request]
  show "Send_approval_request \<notin> set (invoked (run_pipeline perform crew))" by simp
  from no [of Publish_approved_content]
  show "Publish_approved_content \<notin> set (invoked (run_pipeline perform crew))" by simp
  from no [of Track_performance_and_store_in_pinecone]
  show "Track_performance_and_store_in_pinecone \<notin> set (invoked (run_pipeline perform crew))"
    by simp
qed

theorem publish_only_when_approved_witness:
  "Publish_approved_content \<in> set (invoked (run_pipeline approving crew))
   \<and> produced (run_pipeline approving crew) Brand_compliance_review
       = Some (ComplianceVerdict True ''on brand'')
   \<and> produced (run_pipeline approving crew) Send_approval_request
       = Some (ApprovalDecision True)
   \<and> snd (run_pipeline approving crew) = Completed
   \<and> produced (run_pipeline rejecting crew) Brand_compliance_review
       = Some (ComplianceVerdict False ''off brand'')
   \<and> snd (run_pipeline rejecting crew) = Rejected
   \<and> Send_approval_request \<notin> set (invoked (run_pipeline rejecting crew))
   \<and> Publish_approved_content \<notin> set (invoked (run_pipeline rejecting crew))
   \<and> Track_performance_and_store_in_pinecone \<notin> set (invoked (run_pipeline rejecting crew))"
proof -
  have run_a: "run_pipeline approving crew =
      ([ (Retrieve_optimal_story_from_excel_database, Produced (Output [])),
         (Research_high_performance_content_patterns, Produced (Output [])),
         (Generate_facebook_content, Produced (Output [])),
         (Generate_blog_content, Produced (Output [])),
         (Brand_compliance_review, Produced (ComplianceVerdict True ''on brand'')),
         (Send_approval_request, Produced (ApprovalDecision True)),
         (Publish_approved_content, Produced (Output [])),
         (Track_performance_and_store_in_pinecone, Produced (Output [])) ], Completed)"
    by (simp add: run_pipeline_def crew_tasks approving_def produces_def rejection_def)
  have run_r: "run_pipeline rejecting crew =
      ([ (Retrieve_optimal_story_from_excel_database, Produced (Output [])),
         (Research_high_performance_content_patterns, Produced (Output [])),
         (Generate_facebook_content, Produced (Output [])),
         (Generate_blog_content, Produced (Output [])),
         (Brand_compliance_review, Produced (ComplianceVerdict False ''off brand'')) ],
       Rejected)"
    by (simp add: run_pipeline_def crew_tasks rejecting_def produces_def rejection_def)
  have p: "Publish_approved_content \<in> set (invoked (run_pipeline approving crew))"
    by (simp add: run_a invoked_def)
  have v: "produced (run_pipeline approving crew) Brand_compliance_review
             = Some (ComplianceVerdict True ''on brand'')"
    by (simp add: run_a produced_def)
  have c: "snd (run_pipeline approving crew) = Completed"
    by (simp add: run_a)
  have r: "produced (run_pipeline rejecting crew) Brand_compliance_review
             = Some (ComplianceVerdict False ''off brand'')"
    by (simp add: run_r produced_def)
  from publish_only_when_approved [of approving] p
  have a: "produced (run_pipeline approving crew) Send_approval_request
             = Some (ApprovalDecision True)"
    by blast
  from publish_only_when_approved [of rejecting] r
  have h: "snd (run_pipeline rejecting crew) = Rejected
     \<and> Send_approval_request \<notin> set (invoked (run_pipeline rejecting crew))
     \<and> Publish_approved_content \<notin> set (invoked (run_pipeline rejecting crew))
     \<and> Track_performance_and_store_in_pinecone \<notin> set (invoked (run_pipeline rejecting crew))"
    by blast
  from p v a c r h show ?thesis by blast
qed

section \<open>Properties of the clients\<close>

lemma fb_validate_cases:
  "fb_validate a p m = None \<longleftrightarrow> a \<noteq> [] \<and> p \<noteq> [] \<and> py_strip m \<noteq> []"
  by (auto simp: fb_validate_def py_strip_def)

lemma fb_validate_error: "fb_validate a p m = Some err \<Longrightarrow> take 7 err = ''Error: ''"
  by (auto simp: fb_validate_def split: if_splits)

lemma fb_run_invalid:
  "fb_validate (fb_access_token env tok) (fb_page env pid) m = Some err
     \<Longrightarrow> fb_run env post m tok pid = (Inr err, [])"
  by (simp add: fb_run_def fb_try_def)

text \<open>
  Claim C3. When the access token is empty (the parameter and its fallback in the
  environment), or the page id is empty (likewise), or the message is empty after
  trimming, the social publisher returns the error string of its validation, raises
  nothing and posts no request.
\<close>

theorem fb_validation_no_request:
  assumes "fb_access_token env page_access_token = [] \<or> fb_page env page_id = []
           \<or> py_strip message = []"
  shows "\<exists>err. fb_run env post message page_access_token page_id = (Inr err, [])
           \<and> fb_validate (fb_access_token env page_access_token) (fb_page env page_id) message
               = Some err
           \<and> take 7 err = ''Error: ''"
proof -
  from assms have "fb_validate (fb_access_token env page_access_token) (fb_page env page_id) message
      \<noteq> None"
    by (simp add: fb_validate_cases)
  then obtain err where
    e: "fb_validate (fb_access_token env page_access_token) (fb_page env page_id) message = Some err"
    by blast
  with fb_run_invalid [OF e] fb_validate_error [OF e] show ?thesis by blast
qed

theorem fb_validation_no_request_witness:
  "fb_access_token Map.empty [] = []
   \<and> snd (fb_run Map.empty (fail_with (Timeout [])) ''hello'' [] ''42'') = []
   \<and> fst (fb_run Map.empty (fail_with (Timeout [])) ''hello'' [] ''42'')
       = Inr ''Error: Facebook page access token is required. Please provide it as parameter or set FACEBOOK_PAGE_ACCESS_TKN environment variable.''"
proof -
  have a: "fb_access_token Map.empty [] = []"
    by (simp add: fb_access_token_def getenv_or_empty_def dict_get_def)
  from a have h: "fb_access_token Map.empty [] = [] \<or> fb_page Map.empty ''42'' = []
      \<or> py_strip ''hello'' = []" by simp
  from fb_validation_no_request [OF h, of "fail_with (Timeout [])"]
  obtain err where r: "fb_run Map.empty (fail_with (Timeout [])) ''hello'' [] ''42'' = (Inr err, [])"
    and v: "fb_validate (fb_access_token Map.empty []) (fb_page Map.empty ''42'') ''hello'' = Some err"
    by blast
  from v have "err = ''Error: Facebook page access token is required. Please provide it as parameter or set FACEBOOK_PAGE_ACCESS_TKN environment variable.''"
    by (simp add: a fb_validate_def)
  with a r show ?thesis by simp
qed

lemma json_get_cases:
  "(\<exists>v. json_get j k d = Inr v) \<or> (\<exists>m. json_get j k d = Inl (AttributeError m))"
  by (cases j) (simp_all add: json_get_def)

lemma json_get_raises: "json_get j k d = Inl e \<Longrightarrow> \<exists>m. e = AttributeError m"
  using json_get_cases [of j k d] by auto

lemma fb_error_message_raises: "fb_error_message j d = Inl e \<Longrightarrow> \<exists>m. e = AttributeError m"
  by (auto simp: fb_error_message_def split: sum.splits dest: json_get_raises)

lemma marks_nonempty: "check_mark @ s \<noteq> []" "cross_mark @ s \<noteq> []"
  by (simp_all add: check_mark_def cross_mark_def)

lemma fb_respond_raises: "fb_respond p r = Inl e \<Longrightarrow> \<exists>m. e = AttributeError m"
  by (auto simp: fb_respond_def split: if_splits sum.splits
      dest: json_get_raises fb_error_message_raises)

lemma fb_respond_nonempty: "fb_respond p r = Inr s \<Longrightarrow> s \<noteq> []"
  by (auto simp: fb_respond_def marks_nonempty split: if_splits sum.splits)

lemma sq_respond_raises: "sq_respond t r = Inl e \<Longrightarrow> \<exists>m. e = AttributeError m"
  by (auto simp: sq_respond_def split: if_splits sum.splits dest: json_get_raises)

lemma sq_respond_nonempty: "sq_respond t r = Inr s \<Longrightarrow> s \<noteq> []"
  by (auto simp: sq_respond_def marks_nonempty split: if_splits sum.splits)

lemma pc_respond_raises:
  "pc_respond c i r = Inl e \<Longrightarrow> (\<exists>m. e = AttributeError m) \<or> (\<exists>m. e = JSONDecodeError m)"
  by (auto simp: pc_respond_def Let_def split: if_splits sum.splits dest: json_get_raises)

lemma pc_respond_nonempty: "pc_respond c i r = Inr s \<Longrightarrow> s \<noteq> []"
  by (auto simp: pc_respond_def Let_def split: if_splits sum.splits)

lemma fb_except_catches:
  "\<forall>m. e \<noteq> BaseExc m \<Longrightarrow> \<exists>s. fb_except e = Inr s \<and> s \<noteq> []"
  by (cases e) (simp_all add: fb_except_def marks_nonempty)

lemma sq_except_catches:
  "\<forall>m. e \<noteq> BaseExc m \<Longrightarrow> \<exists>s. sq_except e = Inr s \<and> s \<noteq> []"
  by (cases e) (simp_all add: sq_except_def marks_nonempty)

lemma pc_except_catches:
  "\<forall>m. e \<noteq> BaseExc m \<Longrightarrow> \<exists>s. pc_except e = Inr s \<and> s \<noteq> []"
  by (cases e) (simp_all add: pc_except_def)

lemma fb_validate_nonempty: "fb_validate a p m = Some err \<Longrightarrow> err \<noteq> []"
  by (auto simp: fb_validate_def split: if_splits)

lemma sq_validate_nonempty: "sq_validate a b = Some err \<Longrightarrow> err \<noteq> []"
  by (auto simp: sq_validate_def split: if_splits)

lemma pc_validate_nonempty: "pc_validate a b c t = Some err \<Longrightarrow> err \<noteq> []"
  by (auto simp: pc_validate_def split: if_splits)

lemma fb_try_raises:
  assumes "fb_try env post m tok pid = (Inl e, posted)"
  shows "(\<exists>req. post req = Inl e) \<or> (\<exists>x. e = AttributeError x)"
  using assms
  by (auto simp: fb_try_def Let_def split: option.splits sum.splits dest: fb_respond_raises)

lemma fb_try_nonempty: "fb_try env post m tok pid = (Inr s, posted) \<Longrightarrow> s \<noteq> []"
  by (auto simp: fb_try_def Let_def split: option.splits sum.splits
      dest: fb_respond_nonempty fb_validate_nonempty)

lemma fb_run_returns:
  assumes "\<forall>req m. post req \<noteq> Inl (BaseExc m)"
  shows "\<exists>s. fst (fb_run env post message tok pid) = Inr s \<and> s \<noteq> []"
proof (cases "fb_try env post message tok pid")
  case (Pair res posted)
  show ?thesis
  proof (cases res)
    case (Inl e)
    with Pair fb_try_raises have "(\<exists>req. post req = Inl e) \<or> (\<exists>x. e = AttributeError x)"
      by blast
    with assms have "\<forall>m. e \<noteq> BaseExc m" by auto
    from fb_except_catches [OF this] Pair Inl show ?thesis
      by (simp add: fb_run_def)
  next
    case (Inr s)
    with Pair fb_try_nonempty show ?thesis
      by (simp add: fb_run_def)
  qed
qed

lemma sq_try_raises:
  assumes "sq_try env post title body excerpt tags = (Inl e, posted)"
  shows "(\<exists>req. post req = Inl e) \<or> (\<exists>x. e = AttributeError x)"
  using assms
  by (auto simp: sq_try_def Let_def split: option.splits sum.splits dest: sq_respond_raises)

lemma sq_try_nonempty:
  "sq_try env post title body excerpt tags = (Inr s, posted) \<Longrightarrow> s \<noteq> []"
  by (auto simp: sq_try_def Let_def split: option.splits sum.splits
      dest: sq_respond_nonempty sq_validate_nonempty)

lemma sq_run_returns:
  assumes "\<forall>req m. post req \<noteq> Inl (BaseExc m)"
  shows "\<exists>s. fst (sq_run env post title body excerpt tags) = Inr s \<and> s \<noteq> []"
proof (cases "sq_try env post title body excerpt tags")
  case (Pair res posted)
  show ?thesis
  proof (cases res)
    case (Inl e)
    with Pair sq_try_raises have "(\<exists>req. post req = Inl e) \<or> (\<exists>x. e = AttributeError x)"
      by blast
    with assms have "\<forall>m. e \<noteq> BaseExc m" by auto
    from sq_except_catches [OF this] Pair Inl show ?thesis
      by (simp add: sq_run_def)
  next
    case (Inr s)
    with Pair sq_try_nonempty show ?thesis
      by (simp add: sq_run_def)
  qed
qed

lemma pc_try_raises:
  assumes "pc_try env post cid txt metrics ctype chars = (Inl e, posted)"
  shows "(\<exists>req. post req = Inl e) \<or> (\<exists>x. e = AttributeError x) \<or> (\<exists>x. e = JSONDecodeError x)"
  using assms
  by (auto simp: pc_try_def Let_def split: option.splits sum.splits dest: pc_respond_raises)

lemma pc_try_nonempty:
  "pc_try env post cid txt metrics ctype chars = (Inr s, posted) \<Longrightarrow> s \<noteq> []"
  by (auto simp: pc_try_def Let_def split: option.splits sum.splits
      dest: pc_respond_nonempty pc_validate_nonempty)

lemma pc_run_returns:
  assumes "\<forall>req m. post req \<noteq> Inl (BaseExc m)"
  shows "\<exists>s. fst (pc_run env post cid txt metrics ctype chars) = Inr s \<and> s \<noteq> []"
proof (cases "pc_try env post cid txt metrics ctype chars")
  case (Pair res posted)
  show ?thesis
  proof (cases res)
    case (Inl e)
    with Pair pc_try_raises
    have "(\<exists>req. post req = Inl e) \<or> (\<exists>x. e = AttributeError x) \<or> (\<exists>x. e = JSONDecodeError x)"
      by blast
    with assms have "\<forall>m. e \<noteq> BaseExc m" by auto
    from pc_except_catches [OF this] Pair Inl show ?thesis
      by (simp add: pc_run_def)
  next
    case (Inr s)
    with Pair pc_try_nonempty show ?thesis
      by (simp add: pc_run_def)
  qed
qed

text \<open>
  Claim C6. Whatever the input and whatever exception arises inside (a timeout, a
  connection failure, another transport error, any other \<open>Exception\<close>), each of
  the three clients returns a string, not empty, and raises nothing. The hypothesis
  leaves out only what is not an \<open>Exception\<close> (an interrupt, an exit request).
\<close>

theorem clients_never_raise:
  assumes "\<forall>req m. fb_post req \<noteq> Inl (BaseExc m)"
    and "\<forall>req m. sq_post req \<noteq> Inl (BaseExc m)"
    and "\<forall>req m. pc_post req \<noteq> Inl (BaseExc m)"
  shows "(\<exists>s. fst (fb_run env fb_post message page_access_token page_id) = Inr s \<and> s \<noteq> [])
       \<and> (\<exists>s. fst (sq_run env sq_post title body excerpt tags) = Inr s \<and> s \<noteq> [])
       \<and> (\<exists>s. fst (pc_run env pc_post content_id content_text performance_metrics
                      content_type story_characteristics) = Inr s \<and> s \<noteq> [])"
  using fb_run_returns [OF assms(1)] sq_run_returns [OF assms(2)] pc_run_returns [OF assms(3)]
  by blast

lemma fail_with_no_base: "\<forall>req m. fail_with (Timeout t) req \<noteq> Inl (BaseExc m)"
  by (simp add: fail_with_def)

lemma fb_run_timeout:
  "fst (fb_run test_env (fail_with (Timeout [])) ''Hello'' ''token'' ''42'')
     = Inr (cross_mark @ '' Error: Request timed out. Facebook API may be temporarily unavailable.'')"
  by (simp add: fb_run_def fb_try_def fb_access_token_def fb_page_def fb_validate_def
      fail_with_def fb_except_def py_strip_def py_isspace_def code_def)

theorem clients_never_raise_witness:
  "fst (fb_run test_env (fail_with (Timeout [])) ''Hello'' ''token'' ''42'')
     = Inr (cross_mark @ '' Error: Request timed out. Facebook API may be temporarily unavailable.'')
   \<and> (\<exists>s. fst (sq_run test_env (fail_with (Timeout [])) ''Title'' ''Body'' None None) = Inr s
          \<and> s \<noteq> [])
   \<and> (\<exists>s. fst (pc_run test_env (fail_with (Timeout [])) ''S1'' ''A volunteer story'' [] ''blog_post'' [])
             = Inr s \<and> s \<noteq> [])"
proof -
  from clients_never_raise [OF fail_with_no_base fail_with_no_base fail_with_no_base,
      where env = test_env and message = "''Hello''" and page_access_token = "''token''"
        and page_id = "''42''" and title = "''Title''" and body = "''Body''"
        and excerpt = None and tags = None and content_id = "''S1''"
        and content_text = "''A volunteer story''" and performance_metrics = "[]"
        and content_type = "''blog_post''" and story_characteristics = "[]"]
    fb_run_timeout
  show ?thesis by blast
qed

lemma pc_run_invalid:
  "pc_validate (env ''PINECONE_API_KEY'') (env ''PINECONE_ENVIRONMENT'')
      (env ''PINECONE_INDEX_NAME'') ctype = Some err
     \<Longrightarrow> pc_run env post cid txt metrics ctype chars = (Inr err, [])"
  by (simp add: pc_run_def pc_try_def)

lemma pc_validate_error: "pc_validate a b c t = Some err \<Longrightarrow> take 7 err = ''Error: ''"
  by (auto simp: pc_validate_def split: if_splits)

text \<open>
  Claim C5. With a content type other than \<open>facebook_post\<close> and \<open>blog_post\<close>
  the vector store client returns the error string of its validation (that of the
  content type, or that of the configuration, which is checked first) and posts no
  upsert request.
\<close>

theorem pc_rejects_content_type:
  assumes "content_type \<noteq> ''facebook_post''" and "content_type \<noteq> ''blog_post''"
  shows "\<exists>err. pc_run env post content_id content_text performance_metrics content_type
                  story_characteristics = (Inr err, [])
           \<and> pc_validate (env ''PINECONE_API_KEY'') (env ''PINECONE_ENVIRONMENT'')
                 (env ''PINECONE_INDEX_NAME'') content_type = Some err
           \<and> take 7 err = ''Error: ''"
proof -
  from assms have "pc_validate (env ''PINECONE_API_KEY'') (env ''PINECONE_ENVIRONMENT'')
      (env ''PINECONE_INDEX_NAME'') content_type \<noteq> None"
    by (simp add: pc_validate_def)
  then obtain err where
    e: "pc_validate (env ''PINECONE_API_KEY'') (env ''PINECONE_ENVIRONMENT'')
          (env ''PINECONE_INDEX_NAME'') content_type = Some err"
    by blast
  with pc_run_invalid [OF e] pc_validate_error [OF e] show ?thesis by blast
qed

lemma test_env_pinecone:
  "test_env ''PINECONE_API_KEY'' = Some ''key''"
  "test_env ''PINECONE_ENVIRONMENT'' = Some ''us-east1''"
  "test_env ''PINECONE_INDEX_NAME'' = Some ''stories''"
  by (simp_all add: test_env_def)

theorem pc_rejects_content_type_witness:
  "''tweet'' \<noteq> ''facebook_post'' \<and> ''tweet'' \<noteq> ''blog_post''
   \<and> pc_run test_env (fail_with (Timeout [])) ''S1'' ''A volunteer story'' [] ''tweet'' []
       = (Inr (''Error: content_type must be either '' @ apostrophe @ ''facebook_post''
               @ apostrophe @ '' or '' @ apostrophe @ ''blog_post'' @ apostrophe), [])"
proof -
  have a: "''tweet'' \<noteq> ''facebook_post''" and b: "''tweet'' \<noteq> ''blog_post''"
    by simp_all
  from pc_rejects_content_type [OF a b, of test_env "fail_with (Timeout [])" "''S1''"
      "''A volunteer story''" "[]" "[]"]
  obtain err where
    r: "pc_run test_env (fail_with (Timeout [])) ''S1'' ''A volunteer story'' [] ''tweet'' []
          = (Inr err, [])"
    and v: "pc_validate (test_env ''PINECONE_API_KEY'') (test_env ''PINECONE_ENVIRONMENT'')
              (test_env ''PINECONE_INDEX_NAME'') ''tweet'' = Some err"
    by blast
  from v have "err = ''Error: content_type must be either '' @ apostrophe @ ''facebook_post''
               @ apostrophe @ '' or '' @ apostrophe @ ''blog_post'' @ apostrophe"
    by (simp add: test_env_pinecone pc_validate_def unset_def)
  with a b r show ?thesis by simp
qed

text \<open>With a server that treats every attempt alike, the publishers passing the
  server through are the publishers above: same result, same requests.\<close>

lemma fb_run_view:
  "fb_run env post message tok pid
     = (fst (fb_run_io env message tok pid (steady post)),
        calls (snd (fb_run_io env message tok pid (steady post))))"
  by (simp add: fb_run_def fb_try_def fb_run_io_def fb_try_io_def requests_post_def steady_def
        Let_def split: option.splits sum.splits)

lemma sq_run_view:
  "sq_run env post title body excerpt tags
     = (fst (sq_run_io env title body excerpt tags (steady post)),
        calls (snd (sq_run_io env title body excerpt tags (steady post))))"
  by (simp add: sq_run_def sq_try_def sq_run_io_def sq_try_io_def requests_post_def steady_def
        Let_def split: option.splits sum.splits)

lemma fb_run_io_calls:
  "calls (snd (fb_run_io env message tok pid w))
     = (case fb_validate (fb_access_token env tok) (fb_page env pid) message of
          Some err \<Rightarrow> calls w
        | None \<Rightarrow> calls w @ [fb_make_request (fb_access_token env tok) (fb_page env pid) message])"
  by (simp add: fb_run_io_def fb_try_io_def requests_post_def Let_def
        split: option.splits sum.splits)

lemma sq_run_io_calls:
  "calls (snd (sq_run_io env title body excerpt tags w))
     = (case sq_validate (env ''SQUARESPACE_API_KEY'') (env ''SQUARESPACE_SITE_ID'') of
          Some err \<Rightarrow> calls w
        | None \<Rightarrow> calls w @ [sq_make_request (env ''SQUARESPACE_API_KEY'')
                               (env ''SQUARESPACE_SITE_ID'') title body excerpt tags])"
  by (simp add: sq_run_io_def sq_try_io_def requests_post_def Let_def
        split: option.splits sum.splits)

lemma fb_run_io_result:
  "fst (fb_run_io env message tok pid w)
     = (case fb_validate (fb_access_token env tok) (fb_page env pid) message of
          Some err \<Rightarrow> Inr err
        | None \<Rightarrow>
            (case outcomes w (length (calls w))
                    (fb_make_request (fb_access_token env tok) (fb_page env pid) message) of
               Inl e \<Rightarrow> fb_except e
             | Inr r \<Rightarrow> (case fb_respond (fb_page env pid) r of
                           Inl e \<Rightarrow> fb_except e
                         | Inr s \<Rightarrow> Inr s)))"
  by (simp add: fb_run_io_def fb_try_io_def requests_post_def Let_def
        split: option.splits sum.splits)

lemma sq_run_io_result:
  "fst (sq_run_io env title body excerpt tags w)
     = (case sq_validate (env ''SQUARESPACE_API_KEY'') (env ''SQUARESPACE_SITE_ID'') of
          Some err \<Rightarrow> Inr err
        | None \<Rightarrow>
            (case outcomes w (length (calls w))
                    (sq_make_request (env ''SQUARESPACE_API_KEY'') (env ''SQUARESPACE_SITE_ID'')
                       title body excerpt tags) of
               Inl e \<Rightarrow> sq_except e
             | Inr r \<Rightarrow> (case sq_respond title r of
                           Inl e \<Rightarrow> sq_except e
                         | Inr s \<Rightarrow> Inr s)))"
  by (simp add: sq_run_io_def sq_try_io_def requests_post_def Let_def
        split: option.splits sum.splits)

text \<open>
  Claim C8. Every invocation of either publisher makes at most one request to the
  server: exactly one, the request built from its arguments, when its validation
  passes, and none when it fails. There is no second attempt, whatever the outcome of
  the first: the result is the same with any two servers that treat the one request
  alike at the attempt it is made, whatever they would do at any later attempt.
  With a server that treats every attempt alike, the result and the requests are
  those of \<open>fb_run\<close> and \<open>sq_run\<close>.
\<close>

theorem publishers_post_once:
  "length (calls (snd (fb_run_io env message tok pid w))) \<le> length (calls w) + 1
   \<and> (fb_validate (fb_access_token env tok) (fb_page env pid) message = None
        \<longrightarrow> calls (snd (fb_run_io env message tok pid w))
              = calls w @ [fb_make_request (fb_access_token env tok) (fb_page env pid) message])
   \<and> (fb_validate (fb_access_token env tok) (fb_page env pid) message \<noteq> None
        \<longrightarrow> calls (snd (fb_run_io env message tok pid w)) = calls w)
   \<and> (outcomes w' (length (calls w'))
          (fb_make_request (fb_access_token env tok) (fb_page env pid) message)
        = outcomes w (length (calls w))
            (fb_make_request (fb_access_token env tok) (fb_page env pid) message)
        \<longrightarrow> fst (fb_run_io env message tok pid w') = fst (fb_run_io env message tok pid w))
   \<and> length (calls (snd (sq_run_io env title body excerpt tags v))) \<le> length (calls v) + 1
   \<and> (sq_validate (env ''SQUARESPACE_API_KEY'') (env ''SQUARESPACE_SITE_ID'') = None
        \<longrightarrow> calls (snd (sq_run_io env title body excerpt tags v))
              = calls v @ [sq_make_request (env ''SQUARESPACE_API_KEY'')
                             (env ''SQUARESPACE_SITE_ID'') title body excerpt tags])
   \<and> (sq_validate (env ''SQUARESPACE_API_KEY'') (env ''SQUARESPACE_SITE_ID'') \<noteq> None
        \<longrightarrow> calls (snd (sq_run_io env title body excerpt tags v)) = calls v)
   \<and> (outcomes v' (length (calls v'))
          (sq_make_request (env ''SQUARESPACE_API_KEY'') (env ''SQUARESPACE_SITE_ID'')
             title body excerpt tags)
        = outcomes v (length (calls v))
            (sq_make_request (env ''SQUARESPACE_API_KEY'') (env ''SQUARESPACE_SITE_ID'')
               title body excerpt tags)
        \<longrightarrow> fst (sq_run_io env title body excerpt tags v')
              = fst (sq_run_io env title body excerpt tags v))
   \<and> fb_run env fb_post message tok pid
       = (fst (fb_run_io env message tok pid (steady fb_post)),
          calls (snd (fb_run_io env message tok pid (steady fb_post))))
   \<and> sq_run env sq_post title body excerpt tags
       = (fst (sq_run_io env title body excerpt tags (steady sq_post)),
          calls (snd (sq_run_io env title body excerpt tags (steady sq_post))))"
proof (intro conjI impI)
  show "fb_run env fb_post message tok pid
      = (fst (fb_run_io env message tok pid (steady fb_post)),
         calls (snd (fb_run_io env message tok pid (steady fb_post))))"
    by (rule fb_run_view)
  show "sq_run env sq_post title body excerpt tags
      = (fst (sq_run_io env title body excerpt tags (steady sq_post)),
         calls (snd (sq_run_io env title body excerpt tags (steady sq_post))))"
    by (rule sq_run_view)
  show "length (calls (snd (fb_run_io env message tok pid w))) \<le> length (calls w) + 1"
    by (simp add: fb_run_io_calls split: option.splits)
  show "length (calls (snd (sq_run_io env title body excerpt tags v))) \<le> length (calls v) + 1"
    by (simp add: sq_run_io_calls split: option.splits)
next
  assume "fb_validate (fb_access_token env tok) (fb_page env pid) message = None"
  then show "calls (snd (fb_run_io env message tok pid w))
      = calls w @ [fb_make_request (fb_access_token env tok) (fb_page env pid) message]"
    by (simp add: fb_run_io_calls)
next
  assume "fb_validate (fb_access_token env tok) (fb_page env pid) message \<noteq> None"
  then show "calls (snd (fb_run_io env message tok pid w)) = calls w"
    by (auto simp: fb_run_io_calls)
next
  assume "outcomes w' (length (calls w'))
            (fb_make_request (fb_access_token env tok) (fb_page env pid) message)
          = outcomes w (length (calls w))
              (fb_make_request (fb_access_token env tok) (fb_page env pid) message)"
  then show "fst (fb_run_io env message tok pid w') = fst (fb_run_io env message tok pid w)"
    by (simp only: fb_run_io_result)
next
  assume "sq_validate (env ''SQUARESPACE_API_KEY'') (env ''SQUARESPACE_SITE_ID'') = None"
  then show "calls (snd (sq_run_io env title body excerpt tags v))
      = calls v @ [sq_make_request (env ''SQUARESPACE_API_KEY'')
                     (env ''SQUARESPACE_SITE_ID'') title body excerpt tags]"
    by (simp add: sq_run_io_calls)
next
  assume "sq_validate (env ''SQUARESPACE_API_KEY'') (env ''SQUARESPACE_SITE_ID'') \<noteq> None"
  then show "calls (snd (sq_run_io env title body excerpt tags v)) = calls v"
    by (auto simp: sq_run_io_calls)
next
  assume "outcomes v' (length (calls v'))
            (sq_make_request (env ''SQUARESPACE_API_KEY'') (env ''SQUARESPACE_SITE_ID'')
               title body excerpt tags)
          = outcomes v (length (calls v))
              (sq_make_request (env ''SQUARESPACE_API_KEY'') (env ''SQUARESPACE_SITE_ID'')
                 title body excerpt tags)"
  then show "fst (sq_run_io env title body excerpt tags v')
      = fst (sq_run_io env title body excerpt tags v)"
    by (simp only: sq_run_io_result)
qed

theorem publishers_post_once_witness:
  "calls (snd (fb_run_io test_env ''Hello'' ''token'' ''page'' flaky))
     = [fb_make_request ''token'' ''page'' ''Hello'']
   \<and> fst (fb_run_io test_env ''Hello'' ''token'' ''page'' flaky)
       = fst (fb_run_io test_env ''Hello'' ''token'' ''page'' down)
   \<and> fst (fb_run_io test_env ''Hello'' ''token'' ''page'' down)
       = Inr (cross_mark @ '' Error: Request timed out. Facebook API may be temporarily unavailable.'')
   \<and> calls (snd (fb_run_io test_env ''Hello'' [] [] flaky)) = []
   \<and> calls (snd (sq_run_io test_env ''Title'' ''Body'' None None flaky))
       = [sq_make_request (Some ''key'') (Some ''site'') ''Title'' ''Body'' None None]
   \<and> fst (sq_run_io test_env ''Title'' ''Body'' None None flaky)
       = fst (sq_run_io test_env ''Title'' ''Body'' None None down)
   \<and> fst (sq_run_io test_env ''Title'' ''Body'' None None down)
       = Inr (cross_mark @ '' Error: Request timed out. Please try again.'')
   \<and> calls (snd (sq_run_io Map.empty ''Title'' ''Body'' None None flaky)) = []"
proof -
  have tok: "fb_access_token test_env ''token'' = ''token''"
    and pid: "fb_page test_env ''page'' = ''page''"
    by (simp_all add: fb_access_token_def fb_page_def)
  have no_tok: "fb_access_token test_env [] = []"
    by (simp add: fb_access_token_def getenv_or_empty_def dict_get_def test_env_def)
  have fb_ok: "fb_validate (fb_access_token test_env ''token'') (fb_page test_env ''page'')
                 ''Hello'' = None"
    unfolding tok pid by code_simp
  have fb_no: "fb_validate (fb_access_token test_env []) (fb_page test_env []) ''Hello''
                 \<noteq> None"
    by (simp add: no_tok fb_validate_def)
  have key: "test_env ''SQUARESPACE_API_KEY'' = Some ''key''"
    and site: "test_env ''SQUARESPACE_SITE_ID'' = Some ''site''"
    by (simp_all add: test_env_def)
  have sq_ok: "sq_validate (test_env ''SQUARESPACE_API_KEY'') (test_env ''SQUARESPACE_SITE_ID'')
                 = None"
    by (simp add: key site sq_validate_def unset_def)
  have sq_no: "sq_validate (Map.empty ''SQUARESPACE_API_KEY'') (Map.empty ''SQUARESPACE_SITE_ID'')
                 \<noteq> None"
    by (simp add: sq_validate_def unset_def)
  have fb_same: "outcomes down (length (calls down))
                   (fb_make_request (fb_access_token test_env ''token'')
                      (fb_page test_env ''page'') ''Hello'')
                 = outcomes flaky (length (calls flaky))
                     (fb_make_request (fb_access_token test_env ''token'')
                        (fb_page test_env ''page'') ''Hello'')"
    by (simp add: flaky_def down_def steady_def fail_with_def)
  have sq_same: "outcomes down (length (calls down))
                   (sq_make_request (test_env ''SQUARESPACE_API_KEY'')
                      (test_env ''SQUARESPACE_SITE_ID'') ''Title'' ''Body'' None None)
                 = outcomes flaky (length (calls flaky))
                     (sq_make_request (test_env ''SQUARESPACE_API_KEY'')
                        (test_env ''SQUARESPACE_SITE_ID'') ''Title'' ''Body'' None None)"
    by (simp add: flaky_def down_def steady_def fail_with_def)
  note passing = publishers_post_once [where env = test_env and message = "''Hello''"
      and tok = "''token''" and pid = "''page''" and w = flaky and w' = down
      and title = "''Title''" and body = "''Body''" and excerpt = None and tags = None
      and v = flaky and v' = down]
  note failing = publishers_post_once [where env = test_env and message = "''Hello''"
      and tok = "[]" and pid = "[]" and w = flaky]
  note unset = publishers_post_once [where env = Map.empty and title = "''Title''"
      and body = "''Body''" and excerpt = None and tags = None and v = flaky]
  from passing fb_ok have a: "calls (snd (fb_run_io test_env ''Hello'' ''token'' ''page'' flaky))
      = [fb_make_request ''token'' ''page'' ''Hello'']"
    by (simp add: tok pid flaky_def)
  from passing fb_same have "fst (fb_run_io test_env ''Hello'' ''token'' ''page'' down)
      = fst (fb_run_io test_env ''Hello'' ''token'' ''page'' flaky)"
    by blast
  then have b: "fst (fb_run_io test_env ''Hello'' ''token'' ''page'' flaky)
      = fst (fb_run_io test_env ''Hello'' ''token'' ''page'' down)"
    by (rule sym)
  from fb_ok have c: "fst (fb_run_io test_env ''Hello'' ''token'' ''page'' down)
      = Inr (cross_mark @ '' Error: Request timed out. Facebook API may be temporarily unavailable.'')"
    by (simp add: fb_run_io_result down_def steady_def fail_with_def fb_except_def)
  from failing fb_no have d: "calls (snd (fb_run_io test_env ''Hello'' [] [] flaky)) = []"
    by (simp add: flaky_def)
  from passing sq_ok have e: "calls (snd (sq_run_io test_env ''Title'' ''Body'' None None flaky))
      = [sq_make_request (Some ''key'') (Some ''site'') ''Title'' ''Body'' None None]"
    by (simp add: key site flaky_def)
  from passing sq_same have "fst (sq_run_io test_env ''Title'' ''Body'' None None down)
      = fst (sq_run_io test_env ''Title'' ''Body'' None None flaky)"
    by blast
  then have f: "fst (sq_run_io test_env ''Title'' ''Body'' None None flaky)
      = fst (sq_run_io test_env ''Title'' ''Body'' None None down)"
    by (rule sym)
  from sq_ok have g: "fst (sq_run_io test_env ''Title'' ''Body'' None None down)
      = Inr (cross_mark @ '' Error: Request timed out. Please try again.'')"
    by (simp add: sq_run_io_result down_def steady_def fail_with_def sq_except_def)
  from unset sq_no have h: "calls (snd (sq_run_io Map.empty ''Title'' ''Body'' None None flaky)) = []"
    by (simp add: flaky_def)
  from a b c d e f g h show ?thesis by blast
qed

lemma fb_status_mapping:
  "status_code r = 401 \<Longrightarrow> fb_respond p r = Inr (cross_mark @ '' Facebook API Error (401): Invalid or expired access token. Please check your Facebook page access token.'')"
  "status_code r = 429 \<Longrightarrow> fb_respond p r = Inr (cross_mark @ '' Facebook API Error (429): Rate limit exceeded. Please wait before making another request.'')"
  "status_code r = 403 \<Longrightarrow> fb_respond p r = Inr (cross_mark @ '' Facebook API Error (403): Insufficient permissions. Make sure your access token has '' @ apostrophe @ ''pages_manage_posts'' @ apostrophe @ '' permission.'')"
  "status_code r = 404 \<Longrightarrow> fb_respond p r = Inr (cross_mark @ '' Facebook API Error (404): Page not found. Please verify the page ID: '' @ p)"
  "status_code r = 200 \<Longrightarrow> json_result r = Inr (JObj [(''id'', JStr ''123'')])
     \<Longrightarrow> fb_respond p r = Inr (check_mark @ '' Successfully published to Facebook! Post ID: 123'')"
  by (simp_all add: fb_respond_def json_get_def dict_get_def py_str_def)

lemma sq_status_mapping:
  "status_code r = 401 \<Longrightarrow> sq_respond t r = Inr (cross_mark @ '' Error: Unauthorized. Please check your SQUARESPACE_API_KEY.'')"
  "status_code r = 429 \<Longrightarrow> sq_respond t r = Inr (cross_mark @ '' Error: Rate limit exceeded. Please try again later.'')"
  "status_code r = 403 \<Longrightarrow> sq_respond t r = Inr (cross_mark @ '' Error: Forbidden. Your API key may not have permission to create blog posts.'')"
  "status_code r = 404 \<Longrightarrow> sq_respond t r = Inr (cross_mark @ '' Error: Site not found. Please check your SQUARESPACE_SITE_ID.'')"
  by (simp_all add: sq_respond_def)

text \<open>With a body that is not JSON, or is a JSON object whose \<open>error\<close> member is
  an object or missing, the status 400 and every other status have their own
  results.\<close>

lemma fb_status_400_wellformed:
  assumes "status_code r = 400"
  shows "json_result r = Inl m
           \<Longrightarrow> fb_respond p r = Inr (cross_mark @ '' Facebook API Error (400): Invalid request parameters'')"
    and "json_result r = Inr (JObj kvs) \<Longrightarrow> map_of kvs ''error'' = None
           \<Longrightarrow> fb_respond p r = Inr (cross_mark @ '' Facebook API Error (400): Bad request'')"
    and "json_result r = Inr (JObj kvs) \<Longrightarrow> map_of kvs ''error'' = Some (JObj err)
           \<Longrightarrow> fb_respond p r = Inr (cross_mark @ '' Facebook API Error (400): ''
                  @ py_str (dict_get (map_of err) ''message'' (JStr ''Bad request'')))"
  using assms
  by (simp_all add: fb_respond_def fb_error_message_def json_get_def dict_get_def py_str_def)

text \<open>
  Claim C4. The statuses 401, 403, 404 and 429 have their own results whatever the
  body, and a 200 with the body \<open>{"id": "123"}\<close> is a success with the id 123
  (\<open>fb_status_mapping\<close>, \<open>sq_status_mapping\<close>). But a 400, or a status of
  the last branch, keeps its own result only when the body is not JSON or is an
  object of the expected shape: with the body \<open>{"error": "invalid_request"}\<close> the
  social publisher answers a 400 with the catch-all's result, where a body that is
  not JSON at all gets the result of the 400; and the CMS publisher answers a 500
  whose body is \<open>[]\<close> in the same way.
\<close>

theorem status_400_lost_on_other_json:
  "fst (fb_run test_env (respond_with bad_request_oauth) ''Hello'' ''token'' ''42'')
     = Inr (cross_mark @ '' Unexpected Error: '' @ apostrophe @ ''str'' @ apostrophe
            @ '' object has no attribute '' @ apostrophe @ ''get'' @ apostrophe)
   \<and> fst (fb_run test_env (respond_with bad_request_no_json) ''Hello'' ''token'' ''42'')
     = Inr (cross_mark @ '' Facebook API Error (400): Invalid request parameters'')
   \<and> fst (sq_run test_env (respond_with server_error_list) ''Title'' ''Body'' None None)
     = Inr (cross_mark @ '' Unexpected error: '' @ apostrophe @ ''list'' @ apostrophe
            @ '' object has no attribute '' @ apostrophe @ ''get'' @ apostrophe)"
proof -
  have v: "fb_validate (fb_access_token test_env ''token'') (fb_page test_env ''42'') ''Hello'' = None"
    by (simp add: fb_validate_cases fb_access_token_def fb_page_def py_strip_def
        py_isspace_def code_def)
  have s: "sq_validate (test_env ''SQUARESPACE_API_KEY'') (test_env ''SQUARESPACE_SITE_ID'') = None"
    by (simp add: sq_validate_def test_env_def unset_def)
  have 1: "fb_respond (fb_page test_env ''42'') bad_request_oauth
      = Inl (AttributeError (apostrophe @ ''str'' @ apostrophe
            @ '' object has no attribute '' @ apostrophe @ ''get'' @ apostrophe))"
    by (simp add: fb_respond_def bad_request_oauth_def fb_error_message_def json_get_def
        dict_get_def type_name_def)
  have 2: "fb_respond (fb_page test_env ''42'') bad_request_no_json
      = Inr (cross_mark @ '' Facebook API Error (400): Invalid request parameters'')"
    by (simp add: fb_respond_def bad_request_no_json_def)
  have 3: "sq_respond ''Title'' server_error_list
      = Inl (AttributeError (apostrophe @ ''list'' @ apostrophe
            @ '' object has no attribute '' @ apostrophe @ ''get'' @ apostrophe))"
    by (simp add: sq_respond_def server_error_list_def json_get_def type_name_def)
  show ?thesis
    by (simp add: fb_run_def fb_try_def sq_run_def sq_try_def v s respond_with_def 1 2 3
        fb_except_def sq_except_def)
qed

end
